theory Spec2Isabelle
  imports Complex_Main
begin

section \<open>The spectrogram layer of svgui: data model\<close>

text \<open>
  A shallow embedding of \<^verbatim>\<open>layer/SpectrogramLayer.cpp\<close>. The C++ object is a record of
  its data members; every member function takes the record and returns the updated one
  (and its result, where it has one). Conventions:

  \<^item> \<^verbatim>\<open>int\<close> is modelled as \<open>int\<close>: the theorems speak about runs without signed
    overflow, which is undefined behaviour in C++.
  \<^item> \<^verbatim>\<open>float\<close>, \<^verbatim>\<open>double\<close> and \<^verbatim>\<open>sv_samplerate_t\<close> (a double) are modelled as
    \<open>real\<close>: the theorems are about the exact arithmetic the code approximates, and
    a theorem that depends on a quotient by a variable states that the divisor is not
    zero.
  \<^item> a pointer that may be null is an \<open>option\<close>.
  \<^item> signals (\<^verbatim>\<open>emit ...\<close>) and debug output have no effect on the state and are left
    out.
\<close>

datatype ColourScaleType =
  CS_Linear | CS_Meter | CS_Log | CS_Phase | CS_PlusMinusOne | CS_Absolute

text \<open>
  \<^verbatim>\<open>BinScale\<close> and \<^verbatim>\<open>BinDisplay\<close> are scoped enumerations over \<^verbatim>\<open>int\<close>, and
  \<^verbatim>\<open>setProperties\<close> casts integers to them: the last constructor of each stands for
  a value cast from an integer that names no enumerator.
\<close>

datatype BinScale = BinScale_Linear | BinScale_Log | BinScale_Other int

datatype BinDisplay = AllBins | PeakBins | PeakFrequencies | BinDisplay_Other int

datatype ColumnNormalization = Norm_None | Norm_Sum1 | Norm_Max1 | Norm_Hybrid

datatype WindowType =
  RectangularWindow | BartlettWindow | HammingWindow | HanningWindow
  | BlackmanWindow | GaussianWindow | ParzenWindow | NuttallWindow
  | BlackmanHarrisWindow

text \<open>The value of the global preference read by \<^verbatim>\<open>getFFTOversampling\<close>.\<close>

datatype SpectrogramSmoothing =
  NoSpectrogramSmoothing | SpectrogramInterpolated
  | SpectrogramZeroPadded | SpectrogramZeroPaddedAndInterpolated

text \<open>
  The source model (\<^verbatim>\<open>DenseTimeValueModel\<close>, a collaborator): only what the layer
  asks of it.
\<close>

record dtv_model =
  sampleRate :: real
  startFrame :: int
  endFrame :: int
  isOK :: bool
  isReady :: bool

text \<open>
  What an \<^verbatim>\<open>FFTModel\<close> (a collaborator) answers once it is built: whether its
  construction succeeded, its width in columns, its completion and error, and its
  per-cell queries. \<open>sg_estimateStableFrequency s q f\<close> is the value the in/out argument
  \<^verbatim>\<open>freq\<close> holds after \<^verbatim>\<open>estimateStableFrequency(s, q, freq)\<close> when it held \<open>f\<close>
  before.
\<close>

record fft_signal =
  sg_ok :: bool
  sg_width :: int
  sg_completion :: int
  sg_error :: string
  sg_isLocalPeak :: "int \<Rightarrow> int \<Rightarrow> bool"
  sg_isOverThreshold :: "int \<Rightarrow> int \<Rightarrow> real \<Rightarrow> bool"
  sg_estimateStableFrequency :: "int \<Rightarrow> int \<Rightarrow> real \<Rightarrow> real"

text \<open>
  An \<^verbatim>\<open>FFTModel\<close> object: the address \<^verbatim>\<open>new\<close> gave it, the constructor's arguments
  and its answers.
\<close>

record fftmodel =
  fm_addr :: nat
  fm_model :: dtv_model
  fm_channel :: int
  fm_windowType :: WindowType
  fm_windowSize :: int
  fm_windowIncrement :: int
  fm_fftSize :: int
  fm_signal :: fft_signal

text \<open>The behaviour of the constructor \<^verbatim>\<open>FFTModel(model, channel, windowType,
  windowSize, windowIncrement, fftSize)\<close>, a parameter of the model.\<close>

type_synonym fft_factory =
  "dtv_model \<Rightarrow> int \<Rightarrow> WindowType \<Rightarrow> int \<Rightarrow> int \<Rightarrow> int \<Rightarrow> fft_signal"

text \<open>C++ integer division truncates towards zero.\<close>

definition cdiv :: "int \<Rightarrow> int \<Rightarrow> int" where
  "cdiv a b = sgn a * sgn b * (\<bar>a\<bar> div \<bar>b\<bar>)"

definition fm_getHeight :: "fftmodel \<Rightarrow> int" where
  "fm_getHeight f = cdiv (fm_fftSize f) 2 + 1"

definition fm_getWindowIncrement :: "fftmodel \<Rightarrow> int" where
  "fm_getWindowIncrement f = fm_windowIncrement f"

text \<open>
  A \<^verbatim>\<open>Colour3DPlotRenderer\<close> as \<^verbatim>\<open>getRenderer\<close> builds it: the address of the FFT
  model it draws from and the parameters copied from the layer.
\<close>

record renderer =
  rd_fft :: "nat option"
  rd_normalization :: ColumnNormalization
  rd_binDisplay :: BinDisplay
  rd_binScale :: BinScale
  rd_colourRotation :: int

text \<open>A \<^verbatim>\<open>MagnitudeRange\<close>: the running minimum and maximum of one view.\<close>

record MagnitudeRange =
  mr_min :: real
  mr_max :: real

text \<open>
  The layer. \<open>pref_smoothing\<close> is what
  \<^verbatim>\<open>Preferences::getInstance()->getSpectrogramSmoothing()\<close> returns, \<open>heap_next\<close> the
  address the next \<^verbatim>\<open>new FFTModel\<close> returns; the other fields are the data members.
\<close>

record layer =
  m_model :: "dtv_model option"
  m_channel :: int
  m_windowSize :: int
  m_windowType :: WindowType
  m_windowHopLevel :: int
  m_gain :: real
  m_initialGain :: real
  m_threshold :: real
  m_initialThreshold :: real
  m_colourRotation :: int
  m_initialRotation :: int
  m_minFrequency :: int
  m_maxFrequency :: int
  m_initialMaxFrequency :: int
  m_colourScale :: ColourScaleType
  m_colourMap :: int
  m_binScale :: BinScale
  m_binDisplay :: BinDisplay
  m_normalization :: ColumnNormalization
  m_normalizeVisibleArea :: bool
  m_lastEmittedZoomStep :: int
  m_synchronous :: bool
  m_fftModel :: "fftmodel option"
  m_peakCache :: "nat option"
  m_peakCacheDivisor :: int
  m_renderers :: "int \<rightharpoonup> renderer"
  m_viewMags :: "int \<rightharpoonup> MagnitudeRange"
  pref_smoothing :: SpectrogramSmoothing
  heap_next :: nat

text \<open>
  A pixel row as a double holds it: a real number, or positive infinity. The second is
  the row of the frequency 0 on a logarithmic axis, since \<^verbatim>\<open>log10(0)\<close> is minus
  infinity in C++; it is the one double that is not a real number which the frequency
  axis of a view of positive height and non-empty range produces for a frequency that
  is not negative.
\<close>

datatype pixel_row = Row real | Row_inf

text \<open>
  A view (\<^verbatim>\<open>LayerGeometryProvider\<close>): its identifier, its paint height in pixels, its
  map from pixel columns to sample frames, and its two maps between frequencies and pixel
  rows, \<^verbatim>\<open>getYForFrequency(frequency, minf, maxf, logarithmic)\<close> and
  \<^verbatim>\<open>getFrequencyForY(y, minf, maxf, logarithmic)\<close>.
\<close>

record view =
  vw_id :: int
  vw_paintHeight :: int
  vw_frameForX :: "int \<Rightarrow> int"
  vw_getYForFrequency :: "real \<Rightarrow> real \<Rightarrow> real \<Rightarrow> bool \<Rightarrow> pixel_row"
  vw_getFrequencyForY :: "pixel_row \<Rightarrow> real \<Rightarrow> real \<Rightarrow> bool \<Rightarrow> real"

text \<open>
  Modelled from the spec: the two frequency maps of the view are implemented in
  \<^verbatim>\<open>view/View.cpp\<close>, which is not among the sources. The spec has them affine between
  the effective minimum and maximum frequency under the linear scale, and affine in the
  logarithm of the frequency under the logarithmic scale; here the maximum is at row 0
  and the minimum at row \<open>h\<close>, the height of the view. Under the logarithmic scale
  the frequency 0, whose logarithm is minus infinity, has the row at infinity (for a
  positive height and \<open>minf < maxf\<close>, which the theorems about it assume).
\<close>

definition View_getYForFrequency :: "real \<Rightarrow> real \<Rightarrow> real \<Rightarrow> real \<Rightarrow> bool \<Rightarrow> pixel_row" where
  "View_getYForFrequency h frequency minf maxf logarithmic =
     (if logarithmic
      then if frequency = 0 then Row_inf
           else Row (h - h * (log 10 frequency - log 10 minf) / (log 10 maxf - log 10 minf))
      else Row (h - h * (frequency - minf) / (maxf - minf)))"

text \<open>
  Modelled from the spec: the inverse map, from a pixel row to a frequency, also of
  \<^verbatim>\<open>view/View.cpp\<close>; affine, or affine in the logarithm, as the spec has it. The row
  at infinity is, under the logarithmic scale, the row of the frequency 0 (ten to the
  power minus infinity); under the linear scale no frequency has that row, and the
  value given for it here is used by no theorem.
\<close>

definition View_getFrequencyForY :: "real \<Rightarrow> pixel_row \<Rightarrow> real \<Rightarrow> real \<Rightarrow> bool \<Rightarrow> real" where
  "View_getFrequencyForY h y minf maxf logarithmic =
     (case y of
        Row_inf \<Rightarrow> 0
      | Row r \<Rightarrow>
          if logarithmic
          then 10 powr (log 10 minf + (log 10 maxf - log 10 minf) * (h - r) / h)
          else minf + (h - r) * (maxf - minf) / h)"

text \<open>A view of the given identifier and height with these maps.\<close>

definition spec_view :: "int \<Rightarrow> int \<Rightarrow> (int \<Rightarrow> int) \<Rightarrow> view" where
  "spec_view i h fx =
     \<lparr> vw_id = i, vw_paintHeight = h, vw_frameForX = fx,
       vw_getYForFrequency = View_getYForFrequency (real_of_int h),
       vw_getFrequencyForY = View_getFrequencyForY (real_of_int h) \<rparr>"

text \<open>The member initialisers of the constructor, before its body runs.\<close>

definition initial_layer :: "SpectrogramSmoothing \<Rightarrow> layer" where
  "initial_layer sm =
     \<lparr> m_model = None, m_channel = 0, m_windowSize = 1024,
       m_windowType = HanningWindow, m_windowHopLevel = 2,
       m_gain = 1, m_initialGain = 1,
       m_threshold = 1 / 10 ^ 8, m_initialThreshold = 1 / 10 ^ 8,
       m_colourRotation = 0, m_initialRotation = 0,
       m_minFrequency = 10, m_maxFrequency = 8000, m_initialMaxFrequency = 8000,
       m_colourScale = CS_Log, m_colourMap = 0,
       m_binScale = BinScale_Linear, m_binDisplay = AllBins,
       m_normalization = Norm_None, m_normalizeVisibleArea = False,
       m_lastEmittedZoomStep = - 1, m_synchronous = False,
       m_fftModel = None, m_peakCache = None, m_peakCacheDivisor = 8,
       m_renderers = Map.empty, m_viewMags = Map.empty,
       pref_smoothing = sm, heap_next = 0 \<rparr>"

section \<open>Invalidation and the transform parameters\<close>

definition invalidateRenderers :: "layer \<Rightarrow> layer" where
  "invalidateRenderers L = L\<lparr>m_renderers := Map.empty\<rparr>"

definition invalidateFFTModel :: "layer \<Rightarrow> layer" where
  "invalidateFFTModel L = L\<lparr>m_fftModel := None, m_peakCache := None\<rparr>"

definition invalidateMagnitudes :: "layer \<Rightarrow> layer" where
  "invalidateMagnitudes L = L\<lparr>m_viewMags := Map.empty\<rparr>"

definition getFFTOversampling :: "layer \<Rightarrow> int" where
  "getFFTOversampling L =
     (if m_binDisplay L \<noteq> AllBins then 1
      else if pref_smoothing L = NoSpectrogramSmoothing
              \<or> pref_smoothing L = SpectrogramInterpolated then 1
      else 4)"

definition getFFTSize :: "layer \<Rightarrow> int" where
  "getFFTSize L = m_windowSize L * getFFTOversampling L"

text \<open>
  Modelled from the spec: \<^verbatim>\<open>getWindowIncrement\<close> is declared in the header, which is
  not among the sources; the spec gives \<open>hopSize = windowSize >> windowHopLevel\<close>.
\<close>

definition getWindowIncrement :: "layer \<Rightarrow> int" where
  "getWindowIncrement L = m_windowSize L div 2 ^ nat (m_windowHopLevel L)"

section \<open>The setters\<close>

definition setChannel :: "int \<Rightarrow> layer \<Rightarrow> layer" where
  "setChannel ch L =
     (if m_channel L = ch then L
      else invalidateFFTModel ((invalidateRenderers L)\<lparr>m_channel := ch\<rparr>))"

definition setWindowSize :: "int \<Rightarrow> layer \<Rightarrow> layer" where
  "setWindowSize ws L =
     (if m_windowSize L = ws then L
      else invalidateFFTModel ((invalidateRenderers L)\<lparr>m_windowSize := ws\<rparr>))"

definition setWindowHopLevel :: "int \<Rightarrow> layer \<Rightarrow> layer" where
  "setWindowHopLevel v L =
     (if m_windowHopLevel L = v then L
      else invalidateFFTModel ((invalidateRenderers L)\<lparr>m_windowHopLevel := v\<rparr>))"

definition setWindowType :: "WindowType \<Rightarrow> layer \<Rightarrow> layer" where
  "setWindowType w L =
     (if m_windowType L = w then L
      else invalidateFFTModel ((invalidateRenderers L)\<lparr>m_windowType := w\<rparr>))"

definition setGain :: "real \<Rightarrow> layer \<Rightarrow> layer" where
  "setGain gain L =
     (if m_gain L = gain then L
      else (invalidateRenderers L)\<lparr>m_gain := gain\<rparr>)"

definition setThreshold :: "real \<Rightarrow> layer \<Rightarrow> layer" where
  "setThreshold threshold L =
     (if m_threshold L = threshold then L
      else (invalidateRenderers L)\<lparr>m_threshold := threshold\<rparr>)"

definition setMinFrequency :: "int \<Rightarrow> layer \<Rightarrow> layer" where
  "setMinFrequency mf L =
     (if m_minFrequency L = mf then L
      else (invalidateMagnitudes (invalidateRenderers L))\<lparr>m_minFrequency := mf\<rparr>)"

definition setMaxFrequency :: "int \<Rightarrow> layer \<Rightarrow> layer" where
  "setMaxFrequency mf L =
     (if m_maxFrequency L = mf then L
      else (invalidateMagnitudes (invalidateRenderers L))\<lparr>m_maxFrequency := mf\<rparr>)"

definition setColourRotation :: "int \<Rightarrow> layer \<Rightarrow> layer" where
  "setColourRotation r0 L =
     (let r1 = (if r0 < 0 then 0 else r0);
          r = (if r1 > 256 then 256 else r1);
          distance = r - m_colourRotation L;
          L1 = (if distance \<noteq> 0 then L\<lparr>m_colourRotation := r\<rparr> else L)
      in invalidateRenderers L1)"

definition setColourScale :: "ColourScaleType \<Rightarrow> layer \<Rightarrow> layer" where
  "setColourScale colourScale L =
     (if m_colourScale L = colourScale then L
      else (invalidateRenderers L)\<lparr>m_colourScale := colourScale\<rparr>)"

definition setColourMap :: "int \<Rightarrow> layer \<Rightarrow> layer" where
  "setColourMap cm L =
     (if m_colourMap L = cm then L
      else (invalidateRenderers L)\<lparr>m_colourMap := cm\<rparr>)"

definition setBinScale :: "BinScale \<Rightarrow> layer \<Rightarrow> layer" where
  "setBinScale binScale L =
     (if m_binScale L = binScale then L
      else (invalidateRenderers L)\<lparr>m_binScale := binScale\<rparr>)"

definition setBinDisplay :: "BinDisplay \<Rightarrow> layer \<Rightarrow> layer" where
  "setBinDisplay binDisplay L =
     (if m_binDisplay L = binDisplay then L
      else (invalidateRenderers L)\<lparr>m_binDisplay := binDisplay\<rparr>)"

definition setNormalization :: "ColumnNormalization \<Rightarrow> layer \<Rightarrow> layer" where
  "setNormalization n L =
     (if m_normalization L = n then L
      else (invalidateMagnitudes (invalidateRenderers L))\<lparr>m_normalization := n\<rparr>)"

definition setNormalizeVisibleArea :: "bool \<Rightarrow> layer \<Rightarrow> layer" where
  "setNormalizeVisibleArea n L =
     (if m_normalizeVisibleArea L = n then L
      else (invalidateMagnitudes (invalidateRenderers L))\<lparr>m_normalizeVisibleArea := n\<rparr>)"

section \<open>The FFT model, built on demand\<close>

text \<open>
  \<^verbatim>\<open>getFFTModel\<close> is a const member that mutates: it returns the updated layer and the
  pointer. The existing model is returned when its height and window increment still fit
  the parameters; otherwise the peak cache and the model are deleted and a model is
  built, at a fresh address, and dropped again when its construction failed.
\<close>

definition getFFTModel :: "fft_factory \<Rightarrow> layer \<Rightarrow> layer \<times> fftmodel option" where
  "getFFTModel mk L =
     (case m_model L of
        None \<Rightarrow> (L, None)
      | Some src \<Rightarrow>
          let fftSize = getFFTSize L;
              usable = (case m_fftModel L of
                          None \<Rightarrow> False
                        | Some f \<Rightarrow> fm_getHeight f = cdiv fftSize 2 + 1
                                   \<and> fm_getWindowIncrement f = getWindowIncrement L)
          in if usable then (L, m_fftModel L)
             else
               let f = \<lparr> fm_addr = heap_next L, fm_model = src,
                         fm_channel = m_channel L, fm_windowType = m_windowType L,
                         fm_windowSize = m_windowSize L,
                         fm_windowIncrement = getWindowIncrement L,
                         fm_fftSize = fftSize,
                         fm_signal = mk src (m_channel L) (m_windowType L)
                                       (m_windowSize L) (getWindowIncrement L) fftSize \<rparr>;
                   L1 = L\<lparr>m_peakCache := None, m_fftModel := Some f,
                          heap_next := Suc (heap_next L)\<rparr>
               in if \<not> sg_ok (fm_signal f) then (L1\<lparr>m_fftModel := None\<rparr>, None)
                  else (L1, Some f))"

definition getCompletion :: "view \<Rightarrow> layer \<Rightarrow> int" where
  "getCompletion v L =
     (case m_fftModel L of None \<Rightarrow> 100 | Some f \<Rightarrow> sg_completion (fm_signal f))"

definition getError :: "view \<Rightarrow> layer \<Rightarrow> string" where
  "getError v L =
     (case m_fftModel L of None \<Rightarrow> [] | Some f \<Rightarrow> sg_error (fm_signal f))"

text \<open>
  \<^verbatim>\<open>setModel\<close>: a new source model discards the FFT model (connecting the signals
  has no effect on the state).
\<close>

definition setModel :: "dtv_model option \<Rightarrow> layer \<Rightarrow> layer" where
  "setModel model L =
     (if model = m_model L then L else invalidateFFTModel (L\<lparr>m_model := model\<rparr>))"

section \<open>Restoring persisted attributes\<close>

definition convertToColourScale :: "int \<Rightarrow> ColourScaleType" where
  "convertToColourScale val =
     (if val = 0 then CS_Linear
      else if val = 1 then CS_Meter
      else if val = 2 then CS_Log
      else if val = 3 then CS_Log
      else if val = 4 then CS_Phase
      else CS_Linear)"

definition BinScale_of_int :: "int \<Rightarrow> BinScale" where
  "BinScale_of_int i =
     (if i = 0 then BinScale_Linear else if i = 1 then BinScale_Log else BinScale_Other i)"

definition BinDisplay_of_int :: "int \<Rightarrow> BinDisplay" where
  "BinDisplay_of_int i =
     (if i = 0 then AllBins else if i = 1 then PeakBins
      else if i = 2 then PeakFrequencies else BinDisplay_Other i)"

text \<open>
  The attributes handed to \<^verbatim>\<open>setProperties\<close>, as the Qt calls on them answer. A
  numeric attribute is the result of \<^verbatim>\<open>attributes.value(name).toInt(&ok)\<close> (or
  \<^verbatim>\<open>toUInt\<close>, \<^verbatim>\<open>toFloat\<close>), converted to the type of the variable it is assigned
  to: \<open>None\<close> when \<^verbatim>\<open>ok\<close> is false, as for a missing attribute. A textual attribute
  is \<open>None\<close> when the attribute is missing and its text otherwise;
  \<^verbatim>\<open>attributes.value(name)\<close> returns the empty string for a missing attribute, which
  is \<open>attr_value\<close>.
\<close>

record attributes =
  at_channel :: "int option"
  at_windowSize :: "int option"
  at_windowHopLevel :: "int option"
  at_windowOverlap :: "int option"
  at_gain :: "real option"
  at_threshold :: "real option"
  at_minFrequency :: "int option"
  at_maxFrequency :: "int option"
  at_colourScale :: "int option"
  at_colourScheme :: "int option"
  at_colourRotation :: "int option"
  at_frequencyScale :: "int option"
  at_binDisplay :: "int option"
  at_columnNormalization :: "string option"
  at_normalizeColumns :: "string option"
  at_normalizeHybrid :: "string option"
  at_normalizeVisibleArea :: "string option"

definition attr_value :: "string option \<Rightarrow> string" where
  "attr_value x = (case x of None \<Rightarrow> [] | Some t \<Rightarrow> t)"

text \<open>\<^verbatim>\<open>QString::trimmed\<close>: white space removed from both ends.\<close>

definition isSpace :: "char \<Rightarrow> bool" where
  "isSpace c =
     (c = CHR '' '' \<or> c = CHR 0x09 \<or> c = CHR 0x0A \<or> c = CHR 0x0B
      \<or> c = CHR 0x0C \<or> c = CHR 0x0D)"

definition trimmed :: "string \<Rightarrow> string" where
  "trimmed t = rev (dropWhile isSpace (rev (dropWhile isSpace t)))"

text \<open>
  \<^verbatim>\<open>setProperties\<close>, block by block. \<open>when_ok r f\<close> is the statement
  \<^verbatim>\<open>if (ok) f(value);\<close> for a parse result \<open>r\<close>.
\<close>

definition when_ok :: "'a option \<Rightarrow> ('a \<Rightarrow> layer \<Rightarrow> layer) \<Rightarrow> layer \<Rightarrow> layer" where
  "when_ok r f L = (case r of Some v \<Rightarrow> f v L | None \<Rightarrow> L)"

text \<open>The window hop level, or else the legacy \<^verbatim>\<open>windowOverlap\<close>, a percentage.\<close>

definition setProperties_hop :: "attributes \<Rightarrow> layer \<Rightarrow> layer" where
  "setProperties_hop a L =
     (case at_windowHopLevel a of
        Some windowHopLevel \<Rightarrow> setWindowHopLevel windowHopLevel L
      | None \<Rightarrow>
          (case at_windowOverlap a of
             Some windowOverlap \<Rightarrow>
               if windowOverlap = 0 then setWindowHopLevel 0 L
               else if windowOverlap = 25 then setWindowHopLevel 1 L
               else if windowOverlap = 50 then setWindowHopLevel 2 L
               else if windowOverlap = 75 then setWindowHopLevel 3 L
               else if windowOverlap = 90 then setWindowHopLevel 4 L
               else L
           | None \<Rightarrow> L))"

text \<open>The block run when \<^verbatim>\<open>columnNormalization != ""\<close>.\<close>

definition setProperties_newStyle :: "string \<Rightarrow> layer \<Rightarrow> layer" where
  "setProperties_newStyle columnNormalization L =
     (if columnNormalization = ''peak'' then setNormalization Norm_Max1 L
      else if columnNormalization = ''hybrid'' then setNormalization Norm_Hybrid L
      else if columnNormalization = ''none'' then setNormalization Norm_None L
      else L)"

text \<open>The block run when \<^verbatim>\<open>!haveNewStyleNormalization\<close>.\<close>

definition setProperties_oldStyle :: "attributes \<Rightarrow> layer \<Rightarrow> layer" where
  "setProperties_oldStyle a L =
     (let normalizeColumns = (trimmed (attr_value (at_normalizeColumns a)) = ''true'');
          La = (if normalizeColumns then setNormalization Norm_Max1 L else L);
          normalizeHybrid = (trimmed (attr_value (at_normalizeHybrid a)) = ''true'')
      in if normalizeHybrid then setNormalization Norm_Hybrid La else La)"

text \<open>Everything up to and including \<^verbatim>\<open>setNormalizeVisibleArea\<close>.\<close>

definition setProperties_parameters :: "attributes \<Rightarrow> layer \<Rightarrow> layer" where
  "setProperties_parameters a L0 =
     (let L1 = when_ok (at_channel a) setChannel L0;
          L2 = when_ok (at_windowSize a) setWindowSize L1;
          L3 = setProperties_hop a L2;
          L4 = when_ok (at_gain a) setGain L3;
          L5 = when_ok (at_threshold a) setThreshold L4;
          L6 = when_ok (at_minFrequency a) setMinFrequency L5;
          L7 = when_ok (at_maxFrequency a) setMaxFrequency L6;
          L8 = when_ok (at_colourScale a)
                 (\<lambda>colourScale. setColourScale (convertToColourScale colourScale)) L7;
          L9 = when_ok (at_colourScheme a) setColourMap L8;
          L10 = when_ok (at_colourRotation a) setColourRotation L9;
          L11 = when_ok (at_frequencyScale a)
                  (\<lambda>binScale. setBinScale (BinScale_of_int binScale)) L10;
          L12 = when_ok (at_binDisplay a)
                  (\<lambda>binDisplay. setBinDisplay (BinDisplay_of_int binDisplay)) L11;
          columnNormalization = attr_value (at_columnNormalization a);
          haveNewStyleNormalization = (columnNormalization \<noteq> []);
          L13 = (if columnNormalization \<noteq> []
                 then setProperties_newStyle columnNormalization L12 else L12);
          L14 = (if \<not> haveNewStyleNormalization then setProperties_oldStyle a L13 else L13);
          normalizeVisibleArea =
            (trimmed (attr_value (at_normalizeVisibleArea a)) = ''true'')
      in setNormalizeVisibleArea normalizeVisibleArea L14)"

text \<open>The whole function: the parameters, then the correction of the gain of a legacy
  hybrid session.\<close>

definition setProperties :: "attributes \<Rightarrow> layer \<Rightarrow> layer" where
  "setProperties a L0 =
     (let L15 = setProperties_parameters a L0;
          haveNewStyleNormalization = (attr_value (at_columnNormalization a) \<noteq> [])
      in if \<not> haveNewStyleNormalization \<and> m_normalization L15 = Norm_Hybrid
         then setGain (m_gain L15 / real_of_int (cdiv (getFFTSize L15) 2)) L15
         else L15)"

text \<open>The gain once the \<^verbatim>\<open>gain\<close> attribute is read: its value when it parses, the
  gain the layer had otherwise.\<close>

definition loaded_gain :: "attributes \<Rightarrow> layer \<Rightarrow> real" where
  "loaded_gain a L = (case at_gain a of Some gain \<Rightarrow> gain | None \<Rightarrow> m_gain L)"

definition no_attributes :: attributes where
  "no_attributes =
     \<lparr> at_channel = None, at_windowSize = None, at_windowHopLevel = None,
       at_windowOverlap = None, at_gain = None, at_threshold = None,
       at_minFrequency = None, at_maxFrequency = None, at_colourScale = None,
       at_colourScheme = None, at_colourRotation = None, at_frequencyScale = None,
       at_binDisplay = None, at_columnNormalization = None, at_normalizeColumns = None,
       at_normalizeHybrid = None, at_normalizeVisibleArea = None \<rparr>"

text \<open>A session written by the legacy writer: hybrid normalization, gain 1, window
  size 2048, no \<^verbatim>\<open>columnNormalization\<close>.\<close>

definition legacy_hybrid_attributes :: attributes where
  "legacy_hybrid_attributes =
     no_attributes\<lparr> at_windowSize := Some 2048, at_gain := Some 1,
       at_normalizeHybrid := Some ''true'' \<rparr>"

text \<open>The same with a \<^verbatim>\<open>columnNormalization\<close> attribute: present and empty, and
  present with a value.\<close>

definition empty_columnNormalization_attributes :: attributes where
  "empty_columnNormalization_attributes =
     legacy_hybrid_attributes\<lparr> at_columnNormalization := Some [] \<rparr>"

definition new_style_attributes :: attributes where
  "new_style_attributes =
     legacy_hybrid_attributes\<lparr> at_columnNormalization := Some ''hybrid'' \<rparr>"

section \<open>The display parameter setters as one family\<close>

text \<open>
  A call of one of the setters of the display parameters, to state a property of all of
  them at once. \<open>apply_setter\<close> runs the call; \<open>setter_changes\<close> says that the value
  passed differs from the current one.
\<close>

datatype display_setter =
  SetGain real | SetThreshold real | SetColourScale ColourScaleType
  | SetColourMap int | SetColourRotation int | SetBinScale BinScale
  | SetBinDisplay BinDisplay | SetNormalization ColumnNormalization
  | SetNormalizeVisibleArea bool | SetMinFrequency int | SetMaxFrequency int

fun apply_setter :: "display_setter \<Rightarrow> layer \<Rightarrow> layer" where
  "apply_setter (SetGain g) L = setGain g L"
| "apply_setter (SetThreshold t) L = setThreshold t L"
| "apply_setter (SetColourScale c) L = setColourScale c L"
| "apply_setter (SetColourMap c) L = setColourMap c L"
| "apply_setter (SetColourRotation r) L = setColourRotation r L"
| "apply_setter (SetBinScale b) L = setBinScale b L"
| "apply_setter (SetBinDisplay b) L = setBinDisplay b L"
| "apply_setter (SetNormalization n) L = setNormalization n L"
| "apply_setter (SetNormalizeVisibleArea n) L = setNormalizeVisibleArea n L"
| "apply_setter (SetMinFrequency f) L = setMinFrequency f L"
| "apply_setter (SetMaxFrequency f) L = setMaxFrequency f L"

fun setter_changes :: "display_setter \<Rightarrow> layer \<Rightarrow> bool" where
  "setter_changes (SetGain g) L = (g \<noteq> m_gain L)"
| "setter_changes (SetThreshold t) L = (t \<noteq> m_threshold L)"
| "setter_changes (SetColourScale c) L = (c \<noteq> m_colourScale L)"
| "setter_changes (SetColourMap c) L = (c \<noteq> m_colourMap L)"
| "setter_changes (SetColourRotation r) L = (r \<noteq> m_colourRotation L)"
| "setter_changes (SetBinScale b) L = (b \<noteq> m_binScale L)"
| "setter_changes (SetBinDisplay b) L = (b \<noteq> m_binDisplay L)"
| "setter_changes (SetNormalization n) L = (n \<noteq> m_normalization L)"
| "setter_changes (SetNormalizeVisibleArea n) L = (n \<noteq> m_normalizeVisibleArea L)"
| "setter_changes (SetMinFrequency f) L = (f \<noteq> m_minFrequency L)"
| "setter_changes (SetMaxFrequency f) L = (f \<noteq> m_maxFrequency L)"

fun is_SetBinDisplay :: "display_setter \<Rightarrow> bool" where
  "is_SetBinDisplay (SetBinDisplay b) = True"
| "is_SetBinDisplay s = False"

text \<open>
  The test at the head of \<^verbatim>\<open>getFFTModel\<close>: there is a source model, and the FFT
  model that exists fits the current FFT size and window increment.
\<close>

definition fftModelCurrent :: "layer \<Rightarrow> bool" where
  "fftModelCurrent L =
     (case (m_model L, m_fftModel L) of
        (Some src, Some f) \<Rightarrow>
           fm_getHeight f = cdiv (getFFTSize L) 2 + 1
           \<and> fm_getWindowIncrement f = getWindowIncrement L
      | _ \<Rightarrow> False)"

section \<open>The frequency axis\<close>

text \<open>
  The functions of this section read the sample rate through \<^verbatim>\<open>m_model\<close> without a
  test for null: they take the source model \<open>src\<close> that \<^verbatim>\<open>m_model\<close> points to as an
  argument, and apply to a layer \<open>L\<close> with \<open>m_model L = Some src\<close>.
\<close>

text \<open>The conversion \<^verbatim>\<open>int(x)\<close> of a double truncates towards zero.\<close>

definition trunc_int :: "real \<Rightarrow> int" where
  "trunc_int x = (if 0 \<le> x then \<lfloor>x\<rfloor> else \<lceil>x\<rceil>)"

text \<open>\<^verbatim>\<open>lrint\<close> in the default rounding mode: to nearest, ties to even.\<close>

definition lrint :: "real \<Rightarrow> int" where
  "lrint x =
     (let f = \<lfloor>x\<rfloor>; d = x - real_of_int f
      in if d < 1 / 2 then f
         else if 1 / 2 < d then f + 1
         else if even f then f else f + 1)"

definition getEffectiveMinFrequency :: "dtv_model \<Rightarrow> layer \<Rightarrow> real" where
  "getEffectiveMinFrequency src L =
     (let sr = sampleRate src;
          minf = sr / real_of_int (getFFTSize L)
      in if 0 < real_of_int (m_minFrequency L) then
           let minbin0 = trunc_int
                 ((real_of_int (m_minFrequency L) * real_of_int (getFFTSize L)) / sr + 0.01);
               minbin = (if minbin0 < 1 then 1 else minbin0)
           in real_of_int minbin * sr / real_of_int (getFFTSize L)
         else minf)"

definition getEffectiveMaxFrequency :: "dtv_model \<Rightarrow> layer \<Rightarrow> real" where
  "getEffectiveMaxFrequency src L =
     (let sr = sampleRate src;
          maxf = sr / 2
      in if 0 < real_of_int (m_maxFrequency L) then
           let maxbin0 = trunc_int
                 ((real_of_int (m_maxFrequency L) * real_of_int (getFFTSize L)) / sr + 0.1);
               maxbin = (if maxbin0 > cdiv (getFFTSize L) 2 then cdiv (getFFTSize L) 2
                         else maxbin0)
           in real_of_int maxbin * sr / real_of_int (getFFTSize L)
         else maxf)"


definition getBinForY :: "dtv_model \<Rightarrow> view \<Rightarrow> pixel_row \<Rightarrow> layer \<Rightarrow> real" where
  "getBinForY src v y L =
     (let sr = sampleRate src;
          minf = getEffectiveMinFrequency src L;
          maxf = getEffectiveMaxFrequency src L;
          logarithmic = (m_binScale L = BinScale_Log);
          freq = vw_getFrequencyForY v y minf maxf logarithmic
      in (freq * real_of_int (getFFTSize L)) / sr)"

text \<open>
  \<^verbatim>\<open>getYBinRange\<close> and \<^verbatim>\<open>getXBinRange\<close> return false (\<open>None\<close>) or set their two
  reference arguments. Their divisions are divisions of doubles, by the sample rate and
  by the window increment: by zero they give an infinity or a NaN in C++, which the
  conversions to \<^verbatim>\<open>int\<close> of the callers do not define, and 0 here. What is stated of
  the values they return is stated for divisors that are not zero.
\<close>

definition getYBinRange :: "dtv_model \<Rightarrow> view \<Rightarrow> int \<Rightarrow> layer \<Rightarrow> (real \<times> real) option" where
  "getYBinRange src v y L =
     (let h = vw_paintHeight v
      in if y < 0 \<or> y \<ge> h then None
         else Some (getBinForY src v (Row (real_of_int y)) L,
                    getBinForY src v (Row (real_of_int (y - 1))) L))"

text \<open>
  The conversion \<^verbatim>\<open>int(f)\<close> of a frame number \<open>f\<close>, which is a 64-bit
  \<^verbatim>\<open>sv_frame_t\<close>: the value itself when it fits 32 bits, and the value wrapped
  around modulo \<open>2 ^ 32\<close> otherwise.
\<close>

definition frame_to_int :: "int \<Rightarrow> int" where
  "frame_to_int f = (f + 2 ^ 31) mod 2 ^ 32 - 2 ^ 31"

definition getXBinRange :: "dtv_model \<Rightarrow> view \<Rightarrow> int \<Rightarrow> layer \<Rightarrow> (real \<times> real) option" where
  "getXBinRange src v x L =
     (let modelStart = startFrame src;
          modelEnd = endFrame src;
          f0 = vw_frameForX v x - modelStart;
          f1 = vw_frameForX v (x + 1) - modelStart - 1
      in if f1 < frame_to_int modelStart \<or> f0 > frame_to_int modelEnd then None
         else
           let windowIncrement = getWindowIncrement L
           in Some (real_of_int f0 / real_of_int windowIncrement,
                    real_of_int f1 / real_of_int windowIncrement))"

section \<open>The vertical zoom\<close>

text \<open>
  \<^verbatim>\<open>SpectrogramRangeMapper\<close>. Its member \<^verbatim>\<open>m_s2\<close> is set to \<^verbatim>\<open>sqrt(sqrt(2))\<close> by
  the only constructor and never assigned: it is a constant here, and the object is its
  member \<^verbatim>\<open>m_dist\<close>. The constructor ignores the FFT size.
\<close>

record RangeMapper =
  m_dist :: real

definition m_s2 :: real where
  "m_s2 = sqrt (sqrt 2)"

definition SpectrogramRangeMapper :: "real \<Rightarrow> int \<Rightarrow> RangeMapper" where
  "SpectrogramRangeMapper sr fftsize = \<lparr> m_dist = sr / 2 \<rparr>"

text \<open>The loop of \<^verbatim>\<open>getPositionForValue\<close>, from the state \<open>(dst, n)\<close> of its variables \<^verbatim>\<open>dist\<close> and \<^verbatim>\<open>n\<close>.\<close>

function getPositionForValue_loop :: "real \<Rightarrow> real \<Rightarrow> int \<Rightarrow> int" where
  "getPositionForValue_loop val dst n =
     (if dst > val + 0.00001 \<and> dst > 0.1
      then getPositionForValue_loop val (dst / m_s2) (n + 1)
      else n)"
  by pat_completeness auto
termination
  apply (relation "measure (\<lambda>(val, dst, n). nat \<lceil>log m_s2 (10 * dst)\<rceil>)")
   apply simp
  subgoal premises a for val dst n
  proof -
    have "(1::real) < sqrt 2" by simp
    then have "sqrt 1 < sqrt (sqrt 2)" by (simp only: real_sqrt_less_iff)
    then have s: "1 < m_s2" by (simp add: m_s2_def)
    from a have d: "1 < 10 * dst" by simp
    with s have pos: "0 < log m_s2 (10 * dst)" by simp
    have "log m_s2 (10 * (dst / m_s2)) = log m_s2 ((10 * dst) / m_s2)" by simp
    also have "\<dots> = log m_s2 (10 * dst) - log m_s2 m_s2"
      using s d by (intro log_divide_pos) simp_all
    also have "\<dots> = log m_s2 (10 * dst) - 1" using s by simp
    finally have step: "log m_s2 (10 * (dst / m_s2)) = log m_s2 (10 * dst) - 1" .
    have "\<lceil>log m_s2 (10 * (dst / m_s2))\<rceil> = \<lceil>log m_s2 (10 * dst)\<rceil> - 1"
      unfolding step by simp
    moreover from pos have "0 < \<lceil>log m_s2 (10 * dst)\<rceil>" by simp
    ultimately show ?thesis by simp
  qed
  done

declare getPositionForValue_loop.simps [simp del]

text \<open>The test of that loop, for the statements about it.\<close>

definition goes_on :: "real \<Rightarrow> real \<Rightarrow> bool" where
  "goes_on val dst = (dst > val + 0.00001 \<and> dst > 0.1)"

definition getPositionForValue :: "RangeMapper \<Rightarrow> real \<Rightarrow> int" where
  "getPositionForValue m val = getPositionForValue_loop val (m_dist m) 0"

text \<open>The loop of \<^verbatim>\<open>getValueForPosition\<close>, from the state \<open>(dst, n)\<close> of its variables \<^verbatim>\<open>dist\<close> and \<^verbatim>\<open>n\<close>.\<close>

function getValueForPosition_loop :: "int \<Rightarrow> real \<Rightarrow> int \<Rightarrow> real" where
  "getValueForPosition_loop position dst n =
     (if n < position
      then getValueForPosition_loop position (dst / m_s2) (n + 1)
      else dst)"
  by pat_completeness auto
termination
  by (relation "measure (\<lambda>(position, dst, n). nat (position - n))") auto

declare getValueForPosition_loop.simps [simp del]

definition getValueForPosition :: "RangeMapper \<Rightarrow> int \<Rightarrow> real" where
  "getValueForPosition m position = getValueForPosition_loop position (m_dist m) 0"

text \<open>
  \<^verbatim>\<open>getVerticalZoomSteps\<close> returns the number of steps and sets \<^verbatim>\<open>defaultStep\<close>,
  which it leaves as it was (\<open>defaultStep0\<close>) when there is no source model.
\<close>

definition getVerticalZoomSteps :: "layer \<Rightarrow> int \<Rightarrow> int \<times> int" where
  "getVerticalZoomSteps L defaultStep0 =
     (case m_model L of
        None \<Rightarrow> (0, defaultStep0)
      | Some src \<Rightarrow>
          let sr = sampleRate src;
              mapper = SpectrogramRangeMapper sr (getFFTSize L);
              maxStep = getPositionForValue mapper 0;
              minStep = getPositionForValue mapper (sr / 2);
              initialMax = (if m_initialMaxFrequency L = 0 then trunc_int (sr / 2)
                            else m_initialMaxFrequency L);
              defaultStep = getPositionForValue mapper (real_of_int initialMax) - minStep
          in (maxStep - minStep, defaultStep))"

text \<open>
  \<^verbatim>\<open>setVerticalZoomStep\<close> in three parts: the new extents for the range width
  \<open>newdist\<close> around the current ones, their confinement to \<open>[0, sr/2]\<close>, and the
  function itself, which rounds them and stores them.
\<close>

definition zoomExtents :: "BinScale \<Rightarrow> real \<Rightarrow> real \<Rightarrow> real \<Rightarrow> real \<times> real" where
  "zoomExtents binScale dmin dmax newdist =
     (if binScale = BinScale_Log then
        let newmax = (newdist + sqrt (newdist * newdist + 4 * dmin * dmax)) / 2;
            newmin = newmax - newdist
        in (newmin, newmax)
      else
        let dmid = (dmax + dmin) / 2;
            newmin = dmid - newdist / 2;
            newmax = dmid + newdist / 2
        in (newmin, newmax))"

definition confineExtents :: "real \<Rightarrow> real \<times> real \<Rightarrow> real \<times> real" where
  "confineExtents sr e =
     (let newmin0 = fst e; newmax0 = snd e;
          mmin = 0;
          mmax = sr / 2;
          newmax1 = (if newmin0 < mmin then newmax0 + (mmin - newmin0) else newmax0);
          newmin = (if newmin0 < mmin then mmin else newmin0);
          newmax = (if newmax1 > mmax then mmax else newmax1)
      in (newmin, newmax))"

definition setVerticalZoomStep :: "int \<Rightarrow> layer \<Rightarrow> layer" where
  "setVerticalZoomStep step L =
     (case m_model L of
        None \<Rightarrow> L
      | Some src \<Rightarrow>
          let dmin = real_of_int (m_minFrequency L);
              dmax = real_of_int (m_maxFrequency L);
              sr = sampleRate src;
              mapper = SpectrogramRangeMapper sr (getFFTSize L);
              newdist = getValueForPosition mapper step;
              e = confineExtents sr (zoomExtents (m_binScale L) dmin dmax newdist)
          in setMaxFrequency (lrint (snd e)) (setMinFrequency (lrint (fst e)) L))"

section \<open>The adjusted frequency range of a pixel\<close>


text \<open>
  What the function has once its four tests have passed: the FFT model, the sample rate
  and the block of bins of the pixel, columns \<open>bb_s0i\<close> to \<open>bb_s1i\<close> and bins
  \<open>bb_q0i\<close> to \<open>bb_q1i\<close>.
\<close>

record bin_block =
  bb_fft :: fftmodel
  bb_sr :: real
  bb_s0i :: int
  bb_s1i :: int
  bb_q0i :: int
  bb_q1i :: int

definition binBlock :: "fft_factory \<Rightarrow> view \<Rightarrow> int \<Rightarrow> int \<Rightarrow> layer \<Rightarrow> layer \<times> bin_block option" where
  "binBlock mk v x y L =
     (case m_model L of
        None \<Rightarrow> (L, None)
      | Some src \<Rightarrow>
          if \<not> isOK src \<or> \<not> isReady src then (L, None)
          else
            let g = getFFTModel mk L; L1 = fst g
            in (case snd g of
                  None \<Rightarrow> (L1, None)
                | Some fft \<Rightarrow>
                    (case getXBinRange src v x L1 of
                       None \<Rightarrow> (L1, None)
                     | Some s \<Rightarrow>
                         (case getYBinRange src v y L1 of
                            None \<Rightarrow> (L1, None)
                          | Some q \<Rightarrow>
                              (L1, Some \<lparr> bb_fft = fft, bb_sr = sampleRate src,
                                          bb_s0i = trunc_int (fst s + 0.001),
                                          bb_s1i = trunc_int (snd s),
                                          bb_q0i = trunc_int (fst q + 0.001),
                                          bb_q1i = trunc_int (snd q) \<rparr>)))))"







section \<open>Concrete layers used as examples\<close>

definition example_model :: "real \<Rightarrow> dtv_model" where
  "example_model sr =
     \<lparr> sampleRate = sr, startFrame = 0, endFrame = 100000, isOK = True, isReady = True \<rparr>"

definition example_signal :: "bool \<Rightarrow> fft_signal" where
  "example_signal ok =
     \<lparr> sg_ok = ok, sg_width = 100, sg_completion = 40, sg_error = ''busy'',
       sg_isLocalPeak = (\<lambda>s q. False),
       sg_isOverThreshold = (\<lambda>s q t. False),
       sg_estimateStableFrequency = (\<lambda>s q f. f) \<rparr>"

definition example_factory :: "bool \<Rightarrow> fft_factory" where
  "example_factory ok = (\<lambda>src ch wt ws wi fs. example_signal ok)"

text \<open>
  A view 512 pixels high, with the frequency maps above, whose pixel column \<open>x\<close>
  starts at the frame \<open>4096 * x\<close>.
\<close>

definition example_view :: view where
  "example_view = spec_view 1 512 (\<lambda>x. 4096 * x)"

definition example_renderer :: renderer where
  "example_renderer =
     \<lparr> rd_fft = Some 0, rd_normalization = Norm_None, rd_binDisplay = AllBins,
       rd_binScale = BinScale_Linear, rd_colourRotation = 0 \<rparr>"

text \<open>
  A layer as its member initialisers leave it, given a 16 kHz source, before any FFT
  model is built.
\<close>

definition unbuilt_layer :: "SpectrogramSmoothing \<Rightarrow> layer" where
  "unbuilt_layer sm = setModel (Some (example_model 16000)) (initial_layer sm)"

text \<open>
  The same layer once \<^verbatim>\<open>getFFTModel\<close> has built its FFT model and one view holds a
  renderer: with the zero-padding smoothing preference, and without smoothing.
\<close>

definition padded_layer :: layer where
  "padded_layer =
     (fst (getFFTModel (example_factory True) (unbuilt_layer SpectrogramZeroPadded)))
       \<lparr>m_renderers := [vw_id example_view \<mapsto> example_renderer]\<rparr>"

definition plain_layer :: layer where
  "plain_layer =
     (fst (getFFTModel (example_factory True) (unbuilt_layer NoSpectrogramSmoothing)))
       \<lparr>m_renderers := [vw_id example_view \<mapsto> example_renderer]\<rparr>"

text \<open>
  The layer of the spec's example of the linear scale: minimum frequency 0, maximum
  frequency 8000, a 16 kHz source and FFT size 1024.
\<close>

definition linear_example :: layer where
  "linear_example =
     setMaxFrequency 8000 (setMinFrequency 0 (unbuilt_layer NoSpectrogramSmoothing))"

text \<open>
  A layer on a 16 kHz source with the logarithmic scale and the frequency range from
  225 Hz to 900 Hz.
\<close>

definition log_example :: layer where
  "log_example =
     setBinScale BinScale_Log
       (setMaxFrequency 900 (setMinFrequency 225 (unbuilt_layer NoSpectrogramSmoothing)))"

text \<open>
  A layer on an 8 kHz source with the largest window size the property offers, 32768,
  and the zero-padding smoothing preference: its FFT size is 131072.
\<close>

definition narrow_bin_layer :: layer where
  "narrow_bin_layer =
     setWindowSize 32768
       (setModel (Some (example_model 8000)) (initial_layer SpectrogramZeroPadded))"






section \<open>Properties: the setters and the FFT model\<close>

lemmas setter_defs = setGain_def setThreshold_def setColourScale_def setColourMap_def
  setColourRotation_def setBinScale_def setBinDisplay_def setNormalization_def
  setNormalizeVisibleArea_def setMinFrequency_def setMaxFrequency_def
  invalidateRenderers_def invalidateMagnitudes_def

lemmas eval_defs = getFFTModel_def setModel_def initial_layer_def invalidateFFTModel_def
  getFFTSize_def getFFTOversampling_def getWindowIncrement_def cdiv_def
  fm_getHeight_def fm_getWindowIncrement_def padded_layer_def plain_layer_def
  unbuilt_layer_def invalidateRenderers_def example_factory_def example_signal_def
  example_view_def spec_view_def Let_def

lemma apply_setter_renderers:
  "setter_changes s L \<Longrightarrow> m_renderers (apply_setter s L) = Map.empty"
  by (cases s) (simp_all add: setter_defs Let_def)

lemma apply_setter_fftModel: "m_fftModel (apply_setter s L) = m_fftModel L"
  by (cases s) (simp_all add: setter_defs Let_def)

lemma apply_setter_model: "m_model (apply_setter s L) = m_model L"
  by (cases s) (simp_all add: setter_defs Let_def)

lemma apply_setter_windowSize: "m_windowSize (apply_setter s L) = m_windowSize L"
  by (cases s) (simp_all add: setter_defs Let_def)

lemma apply_setter_windowIncrement:
  "getWindowIncrement (apply_setter s L) = getWindowIncrement L"
  by (cases s) (simp_all add: setter_defs Let_def getWindowIncrement_def)

lemma apply_setter_oversampling:
  "\<not> is_SetBinDisplay s \<Longrightarrow>
     getFFTOversampling (apply_setter s L) = getFFTOversampling L"
  by (cases s) (simp_all add: setter_defs Let_def getFFTOversampling_def)

lemma getFFTModel_usable:
  assumes "m_model L = Some src" "m_fftModel L = Some f"
    "fm_getHeight f = cdiv (getFFTSize L) 2 + 1"
    "fm_getWindowIncrement f = getWindowIncrement L"
  shows "getFFTModel mk L = (L, Some f)"
  unfolding getFFTModel_def
  by (simp only: assms option.case Let_def simp_thms if_True)

lemma getFFTModel_current:
  assumes "fftModelCurrent L"
  shows "getFFTModel mk L = (L, m_fftModel L)"
proof -
  from assms obtain src f where "m_model L = Some src" "m_fftModel L = Some f"
    "fm_getHeight f = cdiv (getFFTSize L) 2 + 1"
    "fm_getWindowIncrement f = getWindowIncrement L"
    unfolding fftModelCurrent_def by (cases "m_model L"; cases "m_fftModel L") simp_all
  then show ?thesis using getFFTModel_usable by simp
qed

lemma getFFTModel_returns_member:
  assumes "m_model L = Some src"
  shows "m_fftModel (fst (getFFTModel mk L)) = snd (getFFTModel mk L)"
  by (simp add: getFFTModel_def assms Let_def)

lemma fftModelCurrent_cong:
  assumes "m_model L' = m_model L" "m_fftModel L' = m_fftModel L"
    "getFFTSize L' = getFFTSize L" "getWindowIncrement L' = getWindowIncrement L"
  shows "fftModelCurrent L' = fftModelCurrent L"
  unfolding fftModelCurrent_def assms ..

lemma apply_setter_current:
  assumes "getFFTOversampling (apply_setter s L) = getFFTOversampling L"
  shows "fftModelCurrent (apply_setter s L) = fftModelCurrent L"
proof (rule fftModelCurrent_cong)
  show "getFFTSize (apply_setter s L) = getFFTSize L"
    unfolding getFFTSize_def assms apply_setter_windowSize ..
qed (rule apply_setter_model apply_setter_fftModel apply_setter_windowIncrement)+

text \<open>
  Claim C1, as stated, fails for \<^verbatim>\<open>setBinDisplay\<close>. On a layer with the zero-padding
  smoothing preference and bin display \<open>AllBins\<close> the FFT size is four times the window
  size; \<^verbatim>\<open>setBinDisplay(PeakBins)\<close> keeps the pointer to the FFT model, but the FFT
  size drops to the window size, the test at the head of \<^verbatim>\<open>getFFTModel\<close> fails and
  the next call deletes the model (address 0) and builds another (address 1).
\<close>

theorem setBinDisplay_rebuilds_fft_model:
  "m_binDisplay padded_layer \<noteq> PeakBins
   \<and> fftModelCurrent padded_layer
   \<and> m_fftModel (setBinDisplay PeakBins padded_layer) = m_fftModel padded_layer
   \<and> snd (getFFTModel (example_factory True) (setBinDisplay PeakBins padded_layer))
       \<noteq> m_fftModel padded_layer
   \<and> map_option fm_addr (m_fftModel padded_layer) = Some 0
   \<and> map_option fm_addr
         (snd (getFFTModel (example_factory True) (setBinDisplay PeakBins padded_layer)))
       = Some 1"
  by (simp add: fftModelCurrent_def eval_defs setBinDisplay_def)

text \<open>
  Claim C1, amended. For every setter of a display parameter called with a value that
  differs from the current one, on a layer whose FFT model fits its parameters: the
  renderer map is empty afterwards and the setter leaves the pointer to the FFT model as
  it was; and the next \<^verbatim>\<open>getFFTModel\<close> returns that model and changes nothing, for
  every setter but \<^verbatim>\<open>setBinDisplay\<close>, and for \<^verbatim>\<open>setBinDisplay\<close> when the change
  of bin display leaves the FFT oversampling as it was.
\<close>

theorem display_setter_keeps_fft_model:
  assumes "setter_changes s L" and "fftModelCurrent L"
      and "is_SetBinDisplay s \<longrightarrow>
             getFFTOversampling (apply_setter s L) = getFFTOversampling L"
  shows "m_renderers (apply_setter s L) = Map.empty
       \<and> m_fftModel (apply_setter s L) = m_fftModel L
       \<and> getFFTModel mk (apply_setter s L) = (apply_setter s L, m_fftModel L)"
proof -
  let ?L = "apply_setter s L"
  have ov: "getFFTOversampling ?L = getFFTOversampling L"
    using assms(3) apply_setter_oversampling by blast
  have "fftModelCurrent ?L"
    using assms(2) apply_setter_current [OF ov] by blast
  then have "getFFTModel mk ?L = (?L, m_fftModel ?L)" by (rule getFFTModel_current)
  then have g: "getFFTModel mk ?L = (?L, m_fftModel L)"
    unfolding apply_setter_fftModel .
  from assms(1) have r: "m_renderers ?L = Map.empty" by (rule apply_setter_renderers)
  from r g show ?thesis
    unfolding apply_setter_fftModel by blast
qed

theorem display_setter_keeps_fft_model_witness:
  "setter_changes (SetBinDisplay PeakBins) plain_layer
   \<and> fftModelCurrent plain_layer
   \<and> m_renderers plain_layer \<noteq> Map.empty
   \<and> getFFTOversampling (apply_setter (SetBinDisplay PeakBins) plain_layer)
       = getFFTOversampling plain_layer
   \<and> m_renderers (apply_setter (SetBinDisplay PeakBins) plain_layer) = Map.empty
   \<and> m_fftModel (apply_setter (SetBinDisplay PeakBins) plain_layer)
       = m_fftModel plain_layer
   \<and> getFFTModel (example_factory True) (apply_setter (SetBinDisplay PeakBins) plain_layer)
       = (apply_setter (SetBinDisplay PeakBins) plain_layer, m_fftModel plain_layer)"
proof -
  have h1: "setter_changes (SetBinDisplay PeakBins) plain_layer"
    by (simp add: eval_defs)
  have h2: "fftModelCurrent plain_layer"
    by (simp add: fftModelCurrent_def eval_defs)
  have h3: "getFFTOversampling (apply_setter (SetBinDisplay PeakBins) plain_layer)
              = getFFTOversampling plain_layer"
    by (simp add: eval_defs setBinDisplay_def)
  have h4: "m_renderers plain_layer \<noteq> Map.empty"
    by (simp add: eval_defs)
  from display_setter_keeps_fft_model [OF h1 h2, of "example_factory True"] h1 h2 h3 h4
  show ?thesis by blast
qed

text \<open>
  Claim C7, as stated, fails: \<^verbatim>\<open>setWindowSize\<close> validates nothing. On a layer with
  window size 1024 and an FFT model, \<^verbatim>\<open>setWindowSize(0)\<close> stores the window size 0,
  so that the FFT size is 0, and discards the FFT model.
\<close>

theorem setWindowSize_zero_accepted:
  "m_windowSize padded_layer = 1024
   \<and> m_fftModel padded_layer \<noteq> None
   \<and> m_windowSize (setWindowSize 0 padded_layer) = 0
   \<and> getFFTSize (setWindowSize 0 padded_layer) = 0
   \<and> m_fftModel (setWindowSize 0 padded_layer) = None"
  by (simp add: eval_defs setWindowSize_def)

text \<open>
  Claim C7, amended. \<^verbatim>\<open>setWindowSize\<close> rejects no value: whatever \<open>ws\<close> is, zero
  included, the window size is \<open>ws\<close> afterwards. A value that differs from the current
  one also empties the renderer map and discards the FFT model and the peak cache; only
  a value equal to the current one leaves the layer untouched.
\<close>

theorem setWindowSize_effect:
  "m_windowSize (setWindowSize ws L) = ws
   \<and> (ws \<noteq> m_windowSize L \<longrightarrow>
        setWindowSize ws L =
          L\<lparr>m_windowSize := ws, m_renderers := Map.empty, m_fftModel := None,
            m_peakCache := None\<rparr>)
   \<and> (ws = m_windowSize L \<longrightarrow> setWindowSize ws L = L)"
  by (simp add: setWindowSize_def invalidateFFTModel_def invalidateRenderers_def)

theorem setWindowSize_effect_witness:
  "(0::int) \<noteq> m_windowSize padded_layer
   \<and> m_windowSize (setWindowSize 0 padded_layer) = 0
   \<and> setWindowSize 0 padded_layer =
          padded_layer\<lparr>m_windowSize := 0, m_renderers := Map.empty, m_fftModel := None,
            m_peakCache := None\<rparr>
   \<and> setWindowSize 1024 padded_layer = padded_layer"
proof -
  have ne: "(0::int) \<noteq> m_windowSize padded_layer" by (simp add: eval_defs)
  have eq: "(1024::int) = m_windowSize padded_layer" by (simp add: eval_defs)
  from setWindowSize_effect [of 0 padded_layer] setWindowSize_effect [of 1024 padded_layer]
    ne eq
  show ?thesis by blast
qed

text \<open>
  Claim C10. Whenever the layer holds no FFT model, \<^verbatim>\<open>getCompletion\<close> returns 100
  and \<^verbatim>\<open>getError\<close> the empty string, whatever the view: so it is on the layer as
  constructed, after \<^verbatim>\<open>invalidateFFTModel\<close>, and after a \<^verbatim>\<open>getFFTModel\<close> that
  returned null on a layer with a source model (the construction failed).
\<close>

theorem no_fft_model_reads_complete:
  "(m_fftModel L = None \<longrightarrow> getCompletion v L = 100 \<and> getError v L = [])
   \<and> getCompletion v (initial_layer sm) = 100 \<and> getError v (initial_layer sm) = []
   \<and> getCompletion v (invalidateFFTModel L) = 100
   \<and> getError v (invalidateFFTModel L) = []
   \<and> (m_model L \<noteq> None \<and> snd (getFFTModel mk L) = None \<longrightarrow>
        getCompletion v (fst (getFFTModel mk L)) = 100
        \<and> getError v (fst (getFFTModel mk L)) = [])"
proof -
  have a: "m_fftModel L' = None \<Longrightarrow> getCompletion v L' = 100 \<and> getError v L' = []"
    for L'
    by (simp add: getCompletion_def getError_def)
  have b: "m_fftModel (initial_layer sm) = None" by (simp add: initial_layer_def)
  have c: "m_fftModel (invalidateFFTModel L) = None" by (simp add: invalidateFFTModel_def)
  have d: "m_fftModel (fst (getFFTModel mk L)) = None"
    if "m_model L \<noteq> None" "snd (getFFTModel mk L) = None"
  proof -
    from that(1) obtain src where src: "m_model L = Some src" by blast
    from getFFTModel_returns_member [OF src] that(2) show ?thesis by simp
  qed
  from a b c d show ?thesis by blast
qed

theorem no_fft_model_reads_complete_witness:
  "m_fftModel (unbuilt_layer NoSpectrogramSmoothing) = None
   \<and> getCompletion example_view (unbuilt_layer NoSpectrogramSmoothing) = 100
   \<and> getError example_view (unbuilt_layer NoSpectrogramSmoothing) = []
   \<and> m_model (unbuilt_layer NoSpectrogramSmoothing) \<noteq> None
   \<and> snd (getFFTModel (example_factory False) (unbuilt_layer NoSpectrogramSmoothing))
       = None
   \<and> getCompletion example_view
        (fst (getFFTModel (example_factory False) (unbuilt_layer NoSpectrogramSmoothing)))
       = 100
   \<and> getError example_view
        (fst (getFFTModel (example_factory False) (unbuilt_layer NoSpectrogramSmoothing)))
       = []"
proof -
  have h1: "m_fftModel (unbuilt_layer NoSpectrogramSmoothing) = None"
    by (simp add: eval_defs)
  have h2: "m_model (unbuilt_layer NoSpectrogramSmoothing) \<noteq> None"
    by (simp add: eval_defs)
  have h3: "snd (getFFTModel (example_factory False) (unbuilt_layer NoSpectrogramSmoothing))
              = None"
    by (simp add: eval_defs)
  from no_fft_model_reads_complete
         [of "unbuilt_layer NoSpectrogramSmoothing" example_view NoSpectrogramSmoothing
             "example_factory False"] h1 h2 h3
  show ?thesis by blast
qed

section \<open>Properties: restoring persisted attributes\<close>

lemmas all_setter_defs = setter_defs setChannel_def setWindowSize_def setWindowHopLevel_def
  setWindowType_def invalidateFFTModel_def

lemma frame_gain:
  "m_gain (setChannel c L) = m_gain L"
  "m_gain (setWindowSize w L) = m_gain L"
  "m_gain (setWindowHopLevel h L) = m_gain L"
  "m_gain (setGain g L) = g"
  "m_gain (setThreshold t L) = m_gain L"
  "m_gain (setMinFrequency f L) = m_gain L"
  "m_gain (setMaxFrequency f L) = m_gain L"
  "m_gain (setColourScale cs L) = m_gain L"
  "m_gain (setColourMap cm L) = m_gain L"
  "m_gain (setColourRotation r L) = m_gain L"
  "m_gain (setBinScale bs L) = m_gain L"
  "m_gain (setBinDisplay bd L) = m_gain L"
  "m_gain (setNormalization n L) = m_gain L"
  "m_gain (setNormalizeVisibleArea b L) = m_gain L"
  by (simp_all add: all_setter_defs Let_def)

lemma when_ok_frame:
  assumes "\<And>v K. P (f v K) = P K"
  shows "P (when_ok r f L) = P L"
  by (cases r) (simp_all add: when_ok_def assms)

lemma gain_hop: "m_gain (setProperties_hop a L) = m_gain L"
  by (simp add: setProperties_hop_def frame_gain split: option.splits)

lemma gain_newStyle: "m_gain (setProperties_newStyle cn L) = m_gain L"
  by (simp add: setProperties_newStyle_def frame_gain)

lemma gain_oldStyle: "m_gain (setProperties_oldStyle a L) = m_gain L"
  by (simp add: setProperties_oldStyle_def frame_gain Let_def)

lemma gain_when_ok_gain: "m_gain (when_ok (at_gain a) setGain L) = loaded_gain a L"
  by (cases "at_gain a") (simp_all add: when_ok_def loaded_gain_def frame_gain)

lemma loaded_gain_cong: "m_gain L' = m_gain L \<Longrightarrow> loaded_gain a L' = loaded_gain a L"
  by (simp add: loaded_gain_def split: option.splits)

text \<open>The layer before the final gain correction.\<close>

lemma normalization_oldStyle_hybrid:
  "trimmed (attr_value (at_normalizeHybrid a)) = ''true'' \<Longrightarrow>
     m_normalization (setProperties_oldStyle a L) = Norm_Hybrid"
  by (simp add: setProperties_oldStyle_def Let_def setNormalization_def)

lemma normalization_visibleArea:
  "m_normalization (setNormalizeVisibleArea b L) = m_normalization L"
  by (simp add: setNormalizeVisibleArea_def invalidateMagnitudes_def invalidateRenderers_def)

lemma fftSize_setGain: "getFFTSize (setGain g L) = getFFTSize L"
  by (simp add: setGain_def invalidateRenderers_def getFFTSize_def getFFTOversampling_def)

lemma normalization_setGain: "m_normalization (setGain g L) = m_normalization L"
  by (simp add: setGain_def invalidateRenderers_def)

lemmas gain_when_ok = when_ok_frame [where P = m_gain]

lemma gain_parameters: "m_gain (setProperties_parameters a L) = loaded_gain a L"
proof -
  have pre: "loaded_gain a
          (setProperties_hop a (when_ok (at_windowSize a) setWindowSize
             (when_ok (at_channel a) setChannel L))) = loaded_gain a L"
    by (rule loaded_gain_cong) (simp add: gain_hop gain_when_ok frame_gain)
  have "m_gain (setProperties_parameters a L)
          = loaded_gain a (setProperties_hop a (when_ok (at_windowSize a) setWindowSize
             (when_ok (at_channel a) setChannel L)))"
    unfolding setProperties_parameters_def Let_def
    by (simp add: gain_when_ok frame_gain gain_newStyle gain_oldStyle gain_when_ok_gain)
  with pre show ?thesis by simp
qed

lemma normalization_parameters_hybrid:
  assumes "attr_value (at_columnNormalization a) = []"
      and "trimmed (attr_value (at_normalizeHybrid a)) = ''true''"
  shows "m_normalization (setProperties_parameters a L) = Norm_Hybrid"
  unfolding setProperties_parameters_def Let_def
  by (simp add: assms normalization_visibleArea normalization_oldStyle_hybrid)

text \<open>
  Claim C2, amended. \<^verbatim>\<open>setProperties\<close> takes the legacy path when the value it reads
  for \<^verbatim>\<open>columnNormalization\<close> is empty, that is when the attribute is missing or
  empty. Then, when \<^verbatim>\<open>normalizeHybrid\<close> (trimmed) is \<^verbatim>\<open>"true"\<close>, the normalization
  is hybrid afterwards and the gain is the loaded gain divided by the FFT size halved
  (integer division), taken not to be zero. When the value read for
  \<^verbatim>\<open>columnNormalization\<close> is not empty the gain is the loaded gain, undivided.
\<close>

theorem setProperties_legacy_hybrid_gain:
  assumes "cdiv (getFFTSize (setProperties a L)) 2 \<noteq> 0"
  shows "(attr_value (at_columnNormalization a) = []
          \<and> trimmed (attr_value (at_normalizeHybrid a)) = ''true''
          \<longrightarrow> m_normalization (setProperties a L) = Norm_Hybrid
              \<and> m_gain (setProperties a L)
                  = loaded_gain a L / real_of_int (cdiv (getFFTSize (setProperties a L)) 2))
       \<and> (attr_value (at_columnNormalization a) \<noteq> []
          \<longrightarrow> m_gain (setProperties a L) = loaded_gain a L)"
proof (intro conjI impI)
  assume new: "attr_value (at_columnNormalization a) \<noteq> []"
  then have "setProperties a L = setProperties_parameters a L"
    by (simp add: setProperties_def Let_def)
  then show "m_gain (setProperties a L) = loaded_gain a L"
    by (simp add: gain_parameters)
next
  assume old: "attr_value (at_columnNormalization a) = []
          \<and> trimmed (attr_value (at_normalizeHybrid a)) = ''true''"
  then have hy: "m_normalization (setProperties_parameters a L) = Norm_Hybrid"
    using normalization_parameters_hybrid by blast
  have eq: "setProperties a L =
          setGain (m_gain (setProperties_parameters a L)
                     / real_of_int (cdiv (getFFTSize (setProperties_parameters a L)) 2))
            (setProperties_parameters a L)"
    using old hy by (simp add: setProperties_def Let_def)
  show "m_normalization (setProperties a L) = Norm_Hybrid"
    unfolding eq normalization_setGain by (rule hy)
  show "m_gain (setProperties a L)
          = loaded_gain a L / real_of_int (cdiv (getFFTSize (setProperties a L)) 2)"
    unfolding eq fftSize_setGain frame_gain gain_parameters ..
qed

lemmas attr_defs = legacy_hybrid_attributes_def no_attributes_def
  empty_columnNormalization_attributes_def new_style_attributes_def attr_value_def
  trimmed_def isSpace_def

lemmas sp_defs = setProperties_def setProperties_parameters_def setProperties_hop_def
  setProperties_newStyle_def setProperties_oldStyle_def when_ok_def

text \<open>
  Claim C2, as stated, fails in its last sentence: a \<^verbatim>\<open>columnNormalization\<close> attribute
  that is present and empty reads as the empty string, as a missing one does, and the
  gain 1 of a legacy hybrid session is divided by 1024 all the same.
\<close>

theorem empty_columnNormalization_divides_gain:
  "at_columnNormalization empty_columnNormalization_attributes \<noteq> None
   \<and> m_gain (setProperties empty_columnNormalization_attributes
               (initial_layer NoSpectrogramSmoothing)) = 1 / 1024
   \<and> loaded_gain empty_columnNormalization_attributes
               (initial_layer NoSpectrogramSmoothing) = 1"
  by (simp add: attr_defs sp_defs eval_defs all_setter_defs loaded_gain_def)

theorem setProperties_legacy_hybrid_gain_witness:
  "attr_value (at_columnNormalization legacy_hybrid_attributes) = []
   \<and> trimmed (attr_value (at_normalizeHybrid legacy_hybrid_attributes)) = ''true''
   \<and> getFFTSize (setProperties legacy_hybrid_attributes
                     (initial_layer NoSpectrogramSmoothing)) = 2048
   \<and> m_normalization (setProperties legacy_hybrid_attributes
                     (initial_layer NoSpectrogramSmoothing)) = Norm_Hybrid
   \<and> m_gain (setProperties legacy_hybrid_attributes
                     (initial_layer NoSpectrogramSmoothing)) = 1 / 1024
   \<and> attr_value (at_columnNormalization new_style_attributes) \<noteq> []
   \<and> m_gain (setProperties new_style_attributes
                     (initial_layer NoSpectrogramSmoothing)) = 1"
proof -
  let ?L = "initial_layer NoSpectrogramSmoothing"
  have f: "getFFTSize (setProperties legacy_hybrid_attributes ?L) = 2048"
    by (simp add: attr_defs sp_defs eval_defs all_setter_defs)
  have f': "getFFTSize (setProperties new_style_attributes ?L) = 2048"
    by (simp add: attr_defs sp_defs eval_defs all_setter_defs)
  have d: "cdiv (getFFTSize (setProperties legacy_hybrid_attributes ?L)) 2 \<noteq> 0"
    unfolding f by (simp add: cdiv_def)
  have d': "cdiv (getFFTSize (setProperties new_style_attributes ?L)) 2 \<noteq> 0"
    unfolding f' by (simp add: cdiv_def)
  have h1: "attr_value (at_columnNormalization legacy_hybrid_attributes) = []"
    by (simp add: attr_defs)
  have h2: "trimmed (attr_value (at_normalizeHybrid legacy_hybrid_attributes)) = ''true''"
    by (simp add: attr_defs)
  have h3: "attr_value (at_columnNormalization new_style_attributes) \<noteq> []"
    by (simp add: attr_defs)
  have g: "loaded_gain legacy_hybrid_attributes ?L = 1"
    "loaded_gain new_style_attributes ?L = 1"
    by (simp_all add: attr_defs loaded_gain_def)
  from setProperties_legacy_hybrid_gain [OF d] setProperties_legacy_hybrid_gain [OF d']
    h1 h2 h3 f g
  show ?thesis by (simp add: cdiv_def)
qed

section \<open>Properties: the effective frequency range\<close>

lemma trunc_int_nonneg: "0 \<le> x \<Longrightarrow> trunc_int x = \<lfloor>x\<rfloor>"
  by (simp add: trunc_int_def)

lemma linear_example_fields:
  "m_minFrequency linear_example = 0"
  "m_maxFrequency linear_example = 8000"
  "getFFTSize linear_example = 1024"
  "m_model linear_example = Some (example_model 16000)"
  by (simp_all add: linear_example_def eval_defs setMinFrequency_def setMaxFrequency_def
      invalidateMagnitudes_def)

lemma fields_setMinFrequency:
  "m_minFrequency (setMinFrequency f L) = f"
  "getFFTSize (setMinFrequency f L) = getFFTSize L"
  by (simp_all add: setMinFrequency_def invalidateMagnitudes_def invalidateRenderers_def
      getFFTSize_def getFFTOversampling_def)

lemma fields_setMaxFrequency:
  "m_maxFrequency (setMaxFrequency f L) = f"
  "m_minFrequency (setMaxFrequency f L) = m_minFrequency L"
  "getFFTSize (setMaxFrequency f L) = getFFTSize L"
  by (simp_all add: setMaxFrequency_def invalidateMagnitudes_def invalidateRenderers_def
      getFFTSize_def getFFTOversampling_def)

text \<open>
  Claim C3, as stated, fails twice. With minimum frequency 0 (the spec's example: a
  16 kHz source, FFT size 1024) the effective minimum is bin 1, 15.625 Hz, not bin 0:
  bin 0 is excluded also when the minimum frequency is explicitly 0. And the bin is not
  the nearest one: for minimum frequency 108 the code takes bin 6 (93.75 Hz), while
  bin 7 (109.375 Hz) is nearer.
\<close>

theorem effective_min_excludes_bin_zero:
  "m_minFrequency linear_example = 0
   \<and> getEffectiveMinFrequency (example_model 16000) linear_example = 1 * 16000 / 1024
   \<and> getEffectiveMinFrequency (example_model 16000) (setMinFrequency 108 linear_example)
       = 6 * 16000 / 1024
   \<and> \<bar>108 - 7 * 16000 / 1024\<bar> < \<bar>108 - 6 * 16000 / (1024::real)\<bar>"
proof -
  have a: "getEffectiveMinFrequency (example_model 16000) linear_example = 1 * 16000 / 1024"
    by (simp add: getEffectiveMinFrequency_def linear_example_fields example_model_def)
  have "trunc_int (108 * 1024 / 16000 + 0.01) = 6"
    unfolding trunc_int_def by (simp add: floor_eq_iff)
  then have b: "getEffectiveMinFrequency (example_model 16000)
                  (setMinFrequency 108 linear_example) = 6 * 16000 / 1024"
    by (simp add: getEffectiveMinFrequency_def fields_setMinFrequency linear_example_fields
        example_model_def Let_def)
  from a b show ?thesis by (simp add: linear_example_fields)
qed

lemma effective_min_eq:
  assumes "0 < sampleRate src" and "0 < getFFTSize L" and "0 < m_minFrequency L"
  shows "getEffectiveMinFrequency src L
           = real_of_int (max 1 \<lfloor>real_of_int (m_minFrequency L) * real_of_int (getFFTSize L)
                                  / sampleRate src + 0.01\<rfloor>)
               * sampleRate src / real_of_int (getFFTSize L)"
proof -
  let ?sr = "sampleRate src" and ?n = "real_of_int (getFFTSize L)"
  define x where "x = real_of_int (m_minFrequency L) * ?n / ?sr + 0.01"
  from assms(3) have c: "0 < real_of_int (m_minFrequency L)" by simp
  from assms have "0 \<le> x" by (simp add: x_def)
  then have t: "trunc_int x = \<lfloor>x\<rfloor>" by (rule trunc_int_nonneg)
  have "getEffectiveMinFrequency src L
          = real_of_int (if trunc_int x < 1 then 1 else trunc_int x) * ?sr / ?n"
    unfolding getEffectiveMinFrequency_def Let_def x_def using c by (simp only: if_True)
  also have "(if trunc_int x < 1 then 1 else trunc_int x) = max 1 \<lfloor>x\<rfloor>"
    unfolding t by (simp add: max_def)
  finally show ?thesis unfolding x_def .
qed

lemma effective_max_eq:
  assumes "0 < sampleRate src" and "0 < getFFTSize L" and "0 < m_maxFrequency L"
  shows "getEffectiveMaxFrequency src L
           = real_of_int (min (getFFTSize L div 2)
                            \<lfloor>real_of_int (m_maxFrequency L) * real_of_int (getFFTSize L)
                               / sampleRate src + 0.1\<rfloor>)
               * sampleRate src / real_of_int (getFFTSize L)"
proof -
  let ?sr = "sampleRate src" and ?n = "real_of_int (getFFTSize L)"
  define x where "x = real_of_int (m_maxFrequency L) * ?n / ?sr + 0.1"
  from assms(3) have c: "0 < real_of_int (m_maxFrequency L)" by simp
  from assms have "0 \<le> x" by (simp add: x_def)
  then have t: "trunc_int x = \<lfloor>x\<rfloor>" by (rule trunc_int_nonneg)
  from assms(2) have h: "cdiv (getFFTSize L) 2 = getFFTSize L div 2"
    by (simp add: cdiv_def)
  have "getEffectiveMaxFrequency src L
          = real_of_int (if trunc_int x > cdiv (getFFTSize L) 2 then cdiv (getFFTSize L) 2
                         else trunc_int x) * ?sr / ?n"
    unfolding getEffectiveMaxFrequency_def Let_def x_def using c by (simp only: if_True)
  also have "(if trunc_int x > cdiv (getFFTSize L) 2 then cdiv (getFFTSize L) 2
              else trunc_int x) = min (getFFTSize L div 2) \<lfloor>x\<rfloor>"
    unfolding t h by (simp add: min_def)
  finally show ?thesis unfolding x_def .
qed

text \<open>
  A frequency \<open>f\<close> lies at the position \<open>f * n / sr\<close> on the scale of the bins; with
  \<open>w = sr / n\<close> the width of a bin, the bin \<open>\<lfloor>f * n / sr + t\<rfloor>\<close> starts less than
  \<open>(1 - t) * w\<close> below \<open>f\<close> and at most \<open>t * w\<close> above it.
\<close>

lemma floor_bin_bounds:
  fixes f sr n t :: real
  assumes "0 < sr" and "0 < n"
  shows "real_of_int \<lfloor>f * n / sr + t\<rfloor> * sr / n \<le> f + t * (sr / n)"
    and "f - (1 - t) * (sr / n) < real_of_int \<lfloor>f * n / sr + t\<rfloor> * sr / n"
proof -
  define x where "x = f * n / sr + t"
  define w where "w = sr / n"
  from assms have w: "0 < w" by (simp add: w_def)
  have xw: "x * w = f + t * w" using assms by (simp add: x_def w_def field_simps)
  have "real_of_int \<lfloor>x\<rfloor> * w \<le> x * w"
    using w by (intro mult_right_mono) simp_all
  then have a: "real_of_int \<lfloor>x\<rfloor> * w \<le> f + t * w" by (simp add: xw)
  have "x - 1 < real_of_int \<lfloor>x\<rfloor>" by linarith
  then have "(x - 1) * w < real_of_int \<lfloor>x\<rfloor> * w"
    using w by (intro mult_strict_right_mono) simp_all
  then have b: "f - (1 - t) * w < real_of_int \<lfloor>x\<rfloor> * w"
    using xw by (simp add: algebra_simps)
  from a show "real_of_int \<lfloor>f * n / sr + t\<rfloor> * sr / n \<le> f + t * (sr / n)"
    by (simp add: x_def w_def)
  from b show "f - (1 - t) * (sr / n) < real_of_int \<lfloor>f * n / sr + t\<rfloor> * sr / n"
    by (simp add: x_def w_def)
qed

text \<open>
  Claim C3, amended. For a positive sample rate and FFT size, the effective minimum is
  \<open>bin * sampleRate / fftSize\<close> for an integer bin that is at least 1: bin 1 when the
  minimum frequency is 0 (or less), and otherwise the bin
  \<open>\<lfloor>minFrequency * fftSize / sampleRate + 0.01\<rfloor>\<close>, raised to 1. It is therefore
  less than 0.99 bin widths below the minimum frequency and at most 0.01 bin widths
  above it (or bin 1): not the nearest bin boundary, and not always at or below the
  minimum frequency. The effective maximum is, for a positive maximum frequency, the
  bin \<open>\<lfloor>maxFrequency * fftSize / sampleRate + 0.1\<rfloor>\<close> lowered to \<open>fftSize / 2\<close>: at most
  0.1 bin widths above the maximum frequency and at most 0.9 bin widths below it (or
  bin \<open>fftSize / 2\<close>); it is half the sample rate when the maximum frequency is 0. In
  the example the effective range is from bin 1, 15.625 Hz, to bin 512, 8000 Hz.
\<close>

theorem effective_frequencies:
  assumes "0 < sampleRate src" and "0 < getFFTSize L"
  shows "(\<exists>bin. 1 \<le> bin
            \<and> getEffectiveMinFrequency src L
                = real_of_int bin * sampleRate src / real_of_int (getFFTSize L)
            \<and> (m_minFrequency L \<le> 0 \<longrightarrow> bin = 1)
            \<and> (0 < m_minFrequency L \<longrightarrow>
                 bin = max 1 \<lfloor>real_of_int (m_minFrequency L) * real_of_int (getFFTSize L)
                               / sampleRate src + 0.01\<rfloor>))
       \<and> (0 < m_minFrequency L \<longrightarrow>
            real_of_int (m_minFrequency L)
              - 0.99 * (sampleRate src / real_of_int (getFFTSize L))
              < getEffectiveMinFrequency src L
            \<and> getEffectiveMinFrequency src L
              \<le> max (sampleRate src / real_of_int (getFFTSize L))
                    (real_of_int (m_minFrequency L)
                       + 0.01 * (sampleRate src / real_of_int (getFFTSize L))))
       \<and> (0 < m_maxFrequency L \<longrightarrow>
            (\<exists>bin. bin \<le> getFFTSize L div 2
               \<and> getEffectiveMaxFrequency src L
                   = real_of_int bin * sampleRate src / real_of_int (getFFTSize L)
               \<and> bin = min (getFFTSize L div 2)
                          \<lfloor>real_of_int (m_maxFrequency L) * real_of_int (getFFTSize L)
                               / sampleRate src + 0.1\<rfloor>))
       \<and> (0 < m_maxFrequency L \<longrightarrow>
            getEffectiveMaxFrequency src L
              \<le> real_of_int (m_maxFrequency L)
                    + 0.1 * (sampleRate src / real_of_int (getFFTSize L))
            \<and> min (real_of_int (getFFTSize L div 2) * sampleRate src
                      / real_of_int (getFFTSize L))
                   (real_of_int (m_maxFrequency L)
                      - 0.9 * (sampleRate src / real_of_int (getFFTSize L)))
              \<le> getEffectiveMaxFrequency src L)
       \<and> (m_maxFrequency L \<le> 0 \<longrightarrow> getEffectiveMaxFrequency src L = sampleRate src / 2)"
proof (intro conjI impI)
  let ?sr = "sampleRate src" and ?n = "real_of_int (getFFTSize L)"
  show "\<exists>bin. 1 \<le> bin
            \<and> getEffectiveMinFrequency src L = real_of_int bin * ?sr / ?n
            \<and> (m_minFrequency L \<le> 0 \<longrightarrow> bin = 1)
            \<and> (0 < m_minFrequency L \<longrightarrow>
                 bin = max 1 \<lfloor>real_of_int (m_minFrequency L) * ?n / ?sr + 0.01\<rfloor>)"
  proof (cases "0 < m_minFrequency L")
    case True
    from effective_min_eq [OF assms True] True show ?thesis
      by (intro exI [of _ "max 1 \<lfloor>real_of_int (m_minFrequency L) * ?n / ?sr + 0.01\<rfloor>"])
        simp
  next
    case False
    then have "getEffectiveMinFrequency src L = real_of_int 1 * ?sr / ?n"
      by (simp add: getEffectiveMinFrequency_def Let_def)
    with False show ?thesis by (intro exI [of _ 1]) simp
  qed
next
  let ?sr = "sampleRate src" and ?n = "real_of_int (getFFTSize L)"
  let ?f = "real_of_int (m_minFrequency L)"
  assume pos: "0 < m_minFrequency L"
  define k where "k = \<lfloor>?f * ?n / ?sr + 0.01\<rfloor>"
  from assms have n: "0 < ?n" and w: "0 < ?sr / ?n" by simp_all
  note e = effective_min_eq [OF assms pos, folded k_def]
  note b = floor_bin_bounds [OF assms(1) n, of ?f "0.01", folded k_def]
  have m: "real_of_int k * ?sr / ?n \<le> real_of_int (max 1 k) * ?sr / ?n"
    using assms by (intro divide_right_mono mult_right_mono) simp_all
  from b(2) m show "?f - 0.99 * (?sr / ?n) < getEffectiveMinFrequency src L"
    unfolding e by simp
  show "getEffectiveMinFrequency src L \<le> max (?sr / ?n) (?f + 0.01 * (?sr / ?n))"
  proof (cases "1 \<le> k")
    case True
    then have "max 1 k = k" by simp
    with b(1) show ?thesis unfolding e by simp
  next
    case False
    then have "max 1 k = 1" by simp
    then show ?thesis unfolding e by simp
  qed
next
  let ?sr = "sampleRate src" and ?n = "real_of_int (getFFTSize L)"
  assume pos: "0 < m_maxFrequency L"
  from effective_max_eq [OF assms pos]
  show "\<exists>bin. bin \<le> getFFTSize L div 2
               \<and> getEffectiveMaxFrequency src L = real_of_int bin * ?sr / ?n
               \<and> bin = min (getFFTSize L div 2)
                          \<lfloor>real_of_int (m_maxFrequency L) * ?n / ?sr + 0.1\<rfloor>"
    by (intro exI [of _ "min (getFFTSize L div 2)
                           \<lfloor>real_of_int (m_maxFrequency L) * ?n / ?sr + 0.1\<rfloor>"]) simp
next
  let ?sr = "sampleRate src" and ?n = "real_of_int (getFFTSize L)"
  let ?f = "real_of_int (m_maxFrequency L)" and ?c = "getFFTSize L div 2"
  assume pos: "0 < m_maxFrequency L"
  define k where "k = \<lfloor>?f * ?n / ?sr + 0.1\<rfloor>"
  from assms have n: "0 < ?n" by simp
  note e = effective_max_eq [OF assms pos, folded k_def]
  note b = floor_bin_bounds [OF assms(1) n, of ?f "0.1", folded k_def]
  have m: "real_of_int (min ?c k) * ?sr / ?n \<le> real_of_int k * ?sr / ?n"
    using assms by (intro divide_right_mono mult_right_mono) simp_all
  from b(1) m show "getEffectiveMaxFrequency src L \<le> ?f + 0.1 * (?sr / ?n)"
    unfolding e by simp
  show "min (real_of_int ?c * ?sr / ?n) (?f - 0.9 * (?sr / ?n))
          \<le> getEffectiveMaxFrequency src L"
  proof (cases "k \<le> ?c")
    case True
    then have "min ?c k = k" by simp
    with b(2) show ?thesis unfolding e by simp
  next
    case False
    then have "min ?c k = ?c" by simp
    then show ?thesis unfolding e by simp
  qed
next
  assume "m_maxFrequency L \<le> 0"
  then show "getEffectiveMaxFrequency src L = sampleRate src / 2"
    by (simp add: getEffectiveMaxFrequency_def Let_def)
qed

theorem effective_frequencies_witness:
  "0 < sampleRate (example_model 16000) \<and> 0 < getFFTSize linear_example
   \<and> m_minFrequency linear_example \<le> 0 \<and> 0 < m_maxFrequency linear_example
   \<and> getEffectiveMinFrequency (example_model 16000) linear_example = 1 * 16000 / 1024
   \<and> getEffectiveMaxFrequency (example_model 16000) linear_example = 512 * 16000 / 1024
   \<and> getEffectiveMaxFrequency (example_model 16000) linear_example = 8000
   \<and> 0 < getFFTSize (setMaxFrequency 0 (setMinFrequency 78 linear_example))
   \<and> 0 < m_minFrequency (setMaxFrequency 0 (setMinFrequency 78 linear_example))
   \<and> m_maxFrequency (setMaxFrequency 0 (setMinFrequency 78 linear_example)) \<le> 0
   \<and> getEffectiveMinFrequency (example_model 16000)
         (setMaxFrequency 0 (setMinFrequency 78 linear_example)) = 5 * 16000 / 1024
   \<and> 78 < getEffectiveMinFrequency (example_model 16000)
         (setMaxFrequency 0 (setMinFrequency 78 linear_example))
   \<and> getEffectiveMinFrequency (example_model 16000)
         (setMaxFrequency 0 (setMinFrequency 78 linear_example)) \<le> 78 + 0.01 * (16000 / 1024)
   \<and> getEffectiveMaxFrequency (example_model 16000)
         (setMaxFrequency 0 (setMinFrequency 78 linear_example)) = 16000 / 2"
proof -
  let ?L = "setMaxFrequency 0 (setMinFrequency 78 linear_example)"
  have h1: "0 < sampleRate (example_model 16000)" by (simp add: example_model_def)
  have h2: "0 < getFFTSize linear_example" by (simp add: linear_example_fields)
  have sr: "sampleRate (example_model 16000) = 16000" by (simp add: example_model_def)
  have fl: "\<lfloor>(8000::real) * 1024 / 16000 + 0.1\<rfloor> = 512" by (simp add: floor_eq_iff)
  have L: "m_minFrequency ?L = 78" "m_maxFrequency ?L = 0" "getFFTSize ?L = 1024"
    by (simp_all add: fields_setMaxFrequency fields_setMinFrequency linear_example_fields)
  have h3: "0 < getFFTSize ?L" by (simp add: L)
  have fl2: "\<lfloor>(78::real) * 1024 / 16000 + 0.01\<rfloor> = 5" by (simp add: floor_eq_iff)
  from effective_frequencies [OF h1 h2]
  have a: "getEffectiveMinFrequency (example_model 16000) linear_example = 1 * 16000 / 1024
           \<and> getEffectiveMaxFrequency (example_model 16000) linear_example
               = 512 * 16000 / 1024"
    unfolding linear_example_fields sr by (auto simp: fl)
  from effective_frequencies [OF h1 h3]
  have b: "getEffectiveMinFrequency (example_model 16000) ?L = 5 * 16000 / 1024
           \<and> getEffectiveMaxFrequency (example_model 16000) ?L = 16000 / 2"
    unfolding L sr by (auto simp: fl2)
  from a b h1 h2 h3 show ?thesis
    by (simp add: L linear_example_fields)
qed

section \<open>Properties: the zoom steps\<close>

lemma m_s2_pos: "0 < m_s2"
  by (simp add: m_s2_def)

lemma m_s2_pow4: "m_s2 ^ 4 = 2"
proof -
  have "m_s2 ^ 4 = (m_s2 ^ 2) ^ 2" by simp
  also have "m_s2 ^ 2 = sqrt 2" by (simp add: m_s2_def)
  also have "(sqrt 2) ^ 2 = (2::real)" by simp
  finally show ?thesis .
qed

lemma m_s2_lower: "11 / 10 < m_s2"
proof (rule ccontr)
  assume "\<not> 11 / 10 < m_s2"
  then have "m_s2 \<le> 11 / 10" by simp
  with m_s2_pos have "m_s2 ^ 4 \<le> (11 / 10) ^ 4" by (intro power_mono) simp_all
  then show False unfolding m_s2_pow4 by (simp add: power4_eq_xxxx)
qed

lemma m_s2_upper: "m_s2 < 6 / 5"
proof (rule ccontr)
  assume "\<not> m_s2 < 6 / 5"
  then have "6 / 5 \<le> m_s2" by simp
  then have "(6 / 5) ^ 4 \<le> m_s2 ^ 4" by (intro power_mono) simp_all
  then show False unfolding m_s2_pow4 by (simp add: power4_eq_xxxx)
qed

lemma m_s2_gt_1: "1 < m_s2"
  using m_s2_lower by simp

lemma m_s2_powr: "m_s2 = 2 powr (1 / 4)"
proof -
  have "sqrt (sqrt 2) = (2 powr (1 / 2)) powr (1 / 2)"
    by (simp add: powr_half_sqrt)
  also have "\<dots> = 2 powr (1 / 4)" by (simp add: powr_powr)
  finally show ?thesis by (simp add: m_s2_def)
qed

text \<open>The two loops in closed form.\<close>

lemma getValueForPosition_loop_eq:
  "getValueForPosition_loop position dst n = dst / m_s2 ^ nat (position - n)"
proof (induction position dst n rule: getValueForPosition_loop.induct)
  case (1 position dst n)
  show ?case
  proof (cases "n < position")
    case True
    then have "nat (position - n) = Suc (nat (position - (n + 1)))" by simp
    with True 1 show ?thesis
      by (subst getValueForPosition_loop.simps) simp
  next
    case False
    then show ?thesis by (subst getValueForPosition_loop.simps) simp
  qed
qed

lemma getValueForPosition_eq:
  "getValueForPosition m position = m_dist m / m_s2 ^ nat position"
  by (simp add: getValueForPosition_def getValueForPosition_loop_eq)

lemma getPositionForValue_loop_step:
  assumes "goes_on val dst"
  shows "getPositionForValue_loop val dst n = getPositionForValue_loop val (dst / m_s2) (n + 1)"
proof -
  from assms have c: "dst > val + 0.00001 \<and> dst > 0.1" unfolding goes_on_def .
  show ?thesis
    by (subst getPositionForValue_loop.simps) (simp only: c if_True simp_thms)
qed

lemma getPositionForValue_loop_stop:
  assumes "\<not> goes_on val dst"
  shows "getPositionForValue_loop val dst n = n"
proof -
  from assms have c: "\<not> (dst > val + 0.00001 \<and> dst > 0.1)" unfolding goes_on_def .
  show ?thesis
    by (subst getPositionForValue_loop.simps) (simp only: c if_False simp_thms)
qed

lemma getPositionForValue_loop_unique:
  assumes "\<not> goes_on val (dst / m_s2 ^ k)"
      and "\<forall>j<k. goes_on val (dst / m_s2 ^ j)"
  shows "getPositionForValue_loop val dst n = n + int k"
  using assms
proof (induction k arbitrary: dst n)
  case 0
  then show ?case
    by (simp add: getPositionForValue_loop_stop)
next
  case (Suc k)
  from Suc.prems(2) have g0: "goes_on val dst" by (metis power_0 div_by_1 zero_less_Suc)
  have a: "\<not> goes_on val (dst / m_s2 / m_s2 ^ k)"
    using Suc.prems(1) by (simp add: divide_divide_eq_left)
  have b: "\<forall>j<k. goes_on val (dst / m_s2 / m_s2 ^ j)"
  proof (intro allI impI)
    fix j assume "j < k"
    then have "Suc j < Suc k" by simp
    with Suc.prems(2) have "goes_on val (dst / m_s2 ^ Suc j)" by blast
    then show "goes_on val (dst / m_s2 / m_s2 ^ j)" by (simp add: divide_divide_eq_left)
  qed
  from Suc.IH [OF a b] have "getPositionForValue_loop val (dst / m_s2) (n + 1) = n + 1 + int k" .
  with g0 show ?case
    by (simp add: getPositionForValue_loop_step)
qed

lemma getPositionForValue_loop_stops:
  "\<exists>k. getPositionForValue_loop val dst n = n + int k
       \<and> \<not> goes_on val (dst / m_s2 ^ k)
       \<and> (\<forall>j<k. goes_on val (dst / m_s2 ^ j))"
proof (induction val dst n rule: getPositionForValue_loop.induct)
  case (1 val dst n)
  show ?case
  proof (cases "goes_on val dst")
    case True
    then have c: "dst > val + 0.00001 \<and> dst > 0.1" by (simp add: goes_on_def)
    from 1 [OF c] obtain k where k:
      "getPositionForValue_loop val (dst / m_s2) (n + 1) = n + 1 + int k"
      "\<not> goes_on val (dst / m_s2 / m_s2 ^ k)"
      "\<forall>j<k. goes_on val (dst / m_s2 / m_s2 ^ j)" by blast
    have r: "getPositionForValue_loop val dst n = n + int (Suc k)"
      using k(1) by (simp add: getPositionForValue_loop_step [OF True])
    have s: "\<not> goes_on val (dst / m_s2 ^ Suc k)"
      using k(2) by (simp add: divide_divide_eq_left)
    have b: "\<forall>j<Suc k. goes_on val (dst / m_s2 ^ j)"
    proof (intro allI impI)
      fix j assume j: "j < Suc k"
      show "goes_on val (dst / m_s2 ^ j)"
      proof (cases j)
        case 0
        with True show ?thesis by simp
      next
        case (Suc i)
        with j k(3) have "goes_on val (dst / m_s2 / m_s2 ^ i)" by simp
        with Suc show ?thesis by (simp add: divide_divide_eq_left)
      qed
    qed
    from r s b show ?thesis by blast
  next
    case False
    then have "getPositionForValue_loop val dst n = n + int 0"
      by (simp add: getPositionForValue_loop_stop)
    with False show ?thesis by (intro exI [of _ 0]) simp
  qed
qed


lemma getPositionForValue_steps:
  obtains k where "getPositionForValue m val = int k"
    and "\<not> goes_on val (m_dist m / m_s2 ^ k)"
    and "\<forall>j<k. goes_on val (m_dist m / m_s2 ^ j)"
  using getPositionForValue_loop_stops [of val "m_dist m" 0]
  unfolding getPositionForValue_def by auto

lemma goes_on_gap:
  assumes "0.1 < x * m_s2"
  shows "x + 0.00001 < x * m_s2"
proof -
  define y where "y = x * m_s2"
  from assms have yp: "1 / 10 < y" by (simp add: y_def)
  have x: "x = y / m_s2" using m_s2_pos by (simp add: y_def)
  have "y / m_s2 < y / (11 / 10)"
    using m_s2_lower yp by (intro divide_strict_left_mono) simp_all
  with x have "x < y * 10 / 11" by simp
  with yp have "x + 0.00001 < y" by simp
  then show ?thesis by (simp add: y_def)
qed

text \<open>Past the first step, a step that is reached is told apart from the next.\<close>

lemma reached_step_round_trip:
  assumes before: "\<forall>j<k. goes_on val (d / m_s2 ^ j)"
  shows "\<not> goes_on (d / m_s2 ^ k) (d / m_s2 ^ k)"
    and "\<forall>j<k. goes_on (d / m_s2 ^ k) (d / m_s2 ^ j)"
proof -
  show "\<not> goes_on (d / m_s2 ^ k) (d / m_s2 ^ k)" by (simp add: goes_on_def)
  show "\<forall>j<k. goes_on (d / m_s2 ^ k) (d / m_s2 ^ j)"
  proof (intro allI impI)
    fix j assume j: "j < k"
    with before have gj: "goes_on val (d / m_s2 ^ j)" by blast
    then have big: "0.1 < d / m_s2 ^ j" by (simp add: goes_on_def)
    have pj: "0 < m_s2 ^ j" using m_s2_pos by simp
    have "(0::real) < 0.1" by simp
    from this big have "0 < d / m_s2 ^ j" by (rule less_trans)
    with pj have dpos: "0 < d"
      using m_s2_pos by (auto simp: zero_less_divide_iff)
    from j obtain i where k: "k = Suc (j + i)" using less_imp_Suc_add by blast
    have le: "d / m_s2 ^ (j + i) \<le> d / m_s2 ^ j"
    proof -
      have "m_s2 ^ j \<le> m_s2 ^ (j + i)"
        using m_s2_gt_1 by (intro power_increasing) simp_all
      then show ?thesis
        using dpos m_s2_pos by (intro divide_left_mono) simp_all
    qed
    from k j before have "goes_on val (d / m_s2 ^ (j + i))" by simp
    then have "0.1 < d / m_s2 ^ (j + i)" by (simp add: goes_on_def)
    moreover have "d / m_s2 ^ (j + i) = d / m_s2 ^ k * m_s2"
      using m_s2_pos by (simp add: k)
    ultimately have "d / m_s2 ^ k + 0.00001 < d / m_s2 ^ k * m_s2"
      using goes_on_gap [of "d / m_s2 ^ k"] by simp
    also have "\<dots> = d / m_s2 ^ (j + i)" using m_s2_pos by (simp add: k)
    also note le
    finally show "goes_on (d / m_s2 ^ k) (d / m_s2 ^ j)"
      using big by (simp add: goes_on_def)
  qed
qed

lemma goes_on_zero: "goes_on val d \<Longrightarrow> goes_on 0 d"
  by (simp add: goes_on_def)

lemma steps_round_trip:
  assumes "\<forall>j<k. goes_on val (m_dist m / m_s2 ^ j)"
  shows "getPositionForValue m (getValueForPosition m (int k)) = int k"
proof -
  have v: "getValueForPosition m (int k) = m_dist m / m_s2 ^ k"
    by (simp add: getValueForPosition_eq)
  from reached_step_round_trip [OF assms]
  have "getPositionForValue_loop (m_dist m / m_s2 ^ k) (m_dist m) 0 = 0 + int k"
    by (intro getPositionForValue_loop_unique)
  then show ?thesis
    unfolding getPositionForValue_def v by simp
qed

lemma max_step_positive:
  assumes "0.1 < m_dist m"
  shows "1 \<le> getPositionForValue m 0"
proof -
  obtain k where k: "getPositionForValue m 0 = int k"
    and stop: "\<not> goes_on 0 (m_dist m / m_s2 ^ k)"
    by (rule getPositionForValue_steps)
  have "k \<noteq> 0"
  proof
    assume "k = 0"
    with stop assms show False by (simp add: goes_on_def)
  qed
  with k show ?thesis by simp
qed

text \<open>
  Claim C5. The valid zoom steps are the steps from 0 to the last one,
  \<open>getPositionForValue m 0\<close>, which is the number of steps
  \<^verbatim>\<open>getVerticalZoomSteps\<close> reports: \<^verbatim>\<open>getPositionForValue\<close> returns only such steps,
  whatever the range width. Each of them is returned again for its own range width:
  \<open>getPositionForValue (getValueForPosition n) = n\<close>. (Doubles are reals here: the
  statement is about the exact quotients.)
\<close>

theorem zoom_step_round_trip:
  "0 \<le> getPositionForValue m val
   \<and> getPositionForValue m val \<le> getPositionForValue m 0
   \<and> (0 \<le> n \<and> n \<le> getPositionForValue m 0 \<longrightarrow>
        getPositionForValue m (getValueForPosition m n) = n)"
proof -
  obtain K where K: "getPositionForValue m 0 = int K"
    and stop0: "\<not> goes_on 0 (m_dist m / m_s2 ^ K)"
    and before0: "\<forall>j<K. goes_on 0 (m_dist m / m_s2 ^ j)"
    by (rule getPositionForValue_steps)
  obtain k where k: "getPositionForValue m val = int k"
    and before: "\<forall>j<k. goes_on val (m_dist m / m_s2 ^ j)"
    by (rule getPositionForValue_steps)
  have "k \<le> K"
  proof (rule ccontr)
    assume "\<not> k \<le> K"
    then have "K < k" by simp
    with before have "goes_on val (m_dist m / m_s2 ^ K)" by blast
    then have "goes_on 0 (m_dist m / m_s2 ^ K)" by (rule goes_on_zero)
    with stop0 show False by simp
  qed
  then have range: "0 \<le> getPositionForValue m val
                    \<and> getPositionForValue m val \<le> getPositionForValue m 0"
    by (simp add: k K)
  have trip: "getPositionForValue m (getValueForPosition m n) = n"
    if n: "0 \<le> n \<and> n \<le> getPositionForValue m 0"
  proof -
    from n K have i: "n = int (nat n)" and le: "nat n \<le> K" by auto
    from le before0 have "\<forall>j<nat n. goes_on 0 (m_dist m / m_s2 ^ j)" by simp
    then have "getPositionForValue m (getValueForPosition m (int (nat n))) = int (nat n)"
      by (rule steps_round_trip)
    with i show ?thesis by simp
  qed
  from range trip show ?thesis by blast
qed

theorem zoom_step_round_trip_witness:
  "1 \<le> getPositionForValue (SpectrogramRangeMapper 16000 1024) 0
   \<and> getPositionForValue (SpectrogramRangeMapper 16000 1024) 7500 = 1
   \<and> getPositionForValue (SpectrogramRangeMapper 16000 1024)
         (getValueForPosition (SpectrogramRangeMapper 16000 1024) 0) = 0
   \<and> getPositionForValue (SpectrogramRangeMapper 16000 1024)
         (getValueForPosition (SpectrogramRangeMapper 16000 1024) 1) = 1
   \<and> getPositionForValue (SpectrogramRangeMapper 16000 1024)
         (getValueForPosition (SpectrogramRangeMapper 16000 1024)
            (getPositionForValue (SpectrogramRangeMapper 16000 1024) 0))
       = getPositionForValue (SpectrogramRangeMapper 16000 1024) 0"
proof -
  let ?m = "SpectrogramRangeMapper 16000 1024"
  have d: "m_dist ?m = 8000" by (simp add: SpectrogramRangeMapper_def)
  have "8000 / m_s2 < 8000 / (11 / 10)"
    using m_s2_lower by (intro divide_strict_left_mono) simp_all
  then have a: "\<not> goes_on 7500 (8000 / m_s2 ^ 1)" by (simp add: goes_on_def)
  have b: "\<forall>j<(1::nat). goes_on 7500 (8000 / m_s2 ^ j)" by (simp add: goes_on_def)
  from getPositionForValue_loop_unique [OF a b, of 0]
  have h: "getPositionForValue ?m 7500 = 1"
    by (simp add: getPositionForValue_def d)
  have "0.1 < m_dist ?m" by (simp add: d)
  then have p: "1 \<le> getPositionForValue ?m 0" by (rule max_step_positive)
  then have q: "0 \<le> getPositionForValue ?m 0" by simp
  from zoom_step_round_trip [of ?m 7500 0] zoom_step_round_trip [of ?m 7500 1]
    zoom_step_round_trip [of ?m 7500 "getPositionForValue ?m 0"] h p q
  show ?thesis by simp
qed

section \<open>Properties: the range of the zoom steps\<close>

text \<open>The steps are geometric with ratio \<open>2 powr (1/4)\<close>, from half the sample rate.\<close>

lemma zoom_step_geometric:
  assumes "0 \<le> n"
  shows "getValueForPosition (SpectrogramRangeMapper sr fftsize) n
           = (sr / 2) / 2 powr (real_of_int n / 4)"
proof -
  have "m_s2 ^ nat n = m_s2 powr real (nat n)"
    using m_s2_pos by (simp add: powr_realpow)
  also have "\<dots> = 2 powr (1 / 4 * real (nat n))"
    unfolding m_s2_powr by (simp add: powr_powr)
  also have "1 / 4 * real (nat n) = real_of_int n / 4" using assms by simp
  finally show ?thesis
    by (simp add: getValueForPosition_eq SpectrogramRangeMapper_def)
qed

lemma zoom_step_zero:
  "getValueForPosition (SpectrogramRangeMapper sr fftsize) 0 = sr / 2"
  by (simp add: getValueForPosition_eq SpectrogramRangeMapper_def)

lemma getPositionForValue_full: "getPositionForValue m (m_dist m) = 0"
  unfolding getPositionForValue_def
  by (rule getPositionForValue_loop_stop) (simp add: goes_on_def)

text \<open>The last step: the first whose range is at most 0.1.\<close>

lemma max_step_range:
  assumes "0.1 < m_dist m"
  shows "getValueForPosition m (getPositionForValue m 0) \<le> 0.1"
    and "0.1 / m_s2 < getValueForPosition m (getPositionForValue m 0)"
proof -
  obtain k where k: "getPositionForValue m 0 = int k"
    and stop: "\<not> goes_on 0 (m_dist m / m_s2 ^ k)"
    and before: "\<forall>j<k. goes_on 0 (m_dist m / m_s2 ^ j)"
    by (rule getPositionForValue_steps)
  have v: "getValueForPosition m (getPositionForValue m 0) = m_dist m / m_s2 ^ k"
    by (simp add: k getValueForPosition_eq)
  define q where "q = m_dist m / m_s2 ^ k"
  from stop have "\<not> (q > 0 + 0.00001 \<and> q > 0.1)" unfolding goes_on_def q_def .
  then have "q \<le> 0.1" by (cases "q > 0.1") simp_all
  then show "getValueForPosition m (getPositionForValue m 0) \<le> 0.1"
    unfolding v q_def .
  have "k \<noteq> 0"
  proof
    assume "k = 0"
    with stop assms show False by (simp add: goes_on_def)
  qed
  then obtain i where i: "k = Suc i" by (cases k) simp_all
  with before have "goes_on 0 (m_dist m / m_s2 ^ i)" by simp
  then have "0.1 < m_dist m / m_s2 ^ i" by (simp add: goes_on_def)
  then have "0.1 / m_s2 < m_dist m / m_s2 ^ i / m_s2"
    using m_s2_pos by (simp only: divide_strict_right_mono)
  then show "0.1 / m_s2 < getValueForPosition m (getPositionForValue m 0)"
    unfolding v i by (simp add: divide_divide_eq_left mult.commute)
qed

lemma getVerticalZoomSteps_eq:
  assumes "m_model L = Some src"
  shows "fst (getVerticalZoomSteps L d0)
           = getPositionForValue (SpectrogramRangeMapper (sampleRate src) (getFFTSize L)) 0"
proof -
  have "getPositionForValue (SpectrogramRangeMapper (sampleRate src) (getFFTSize L))
          (sampleRate src / 2) = 0"
    using getPositionForValue_full [of "SpectrogramRangeMapper (sampleRate src) (getFFTSize L)"]
    by (simp add: SpectrogramRangeMapper_def)
  then show ?thesis
    by (simp add: getVerticalZoomSteps_def assms Let_def)
qed

lemma narrow_bin_layer_fields:
  "m_model narrow_bin_layer = Some (example_model 8000)"
  "getFFTSize narrow_bin_layer = 131072"
  by (simp_all add: narrow_bin_layer_def eval_defs setWindowSize_def)

text \<open>
  Claim C6 at a layer the code can be given: an 8 kHz source, window size 32768 and the
  zero-padding preference. One FFT bin is \<open>8000 / 131072\<close> Hz wide, about 0.061 Hz,
  and the range of the last step that \<^verbatim>\<open>getVerticalZoomSteps\<close> reports is wider than
  that (it lies between \<open>0.1 / m_s2\<close> and 0.1).
\<close>

theorem max_step_wider_than_bin:
  "m_model narrow_bin_layer = Some (example_model 8000)
   \<and> sampleRate (example_model 8000) / real_of_int (getFFTSize narrow_bin_layer)
       = 8000 / 131072
   \<and> 8000 / 131072
       < getValueForPosition (SpectrogramRangeMapper 8000 (getFFTSize narrow_bin_layer))
           (fst (getVerticalZoomSteps narrow_bin_layer 0))"
proof -
  let ?m = "SpectrogramRangeMapper 8000 131072"
  have sr: "sampleRate (example_model 8000) = 8000" by (simp add: example_model_def)
  have steps: "fst (getVerticalZoomSteps narrow_bin_layer 0) = getPositionForValue ?m 0"
    using getVerticalZoomSteps_eq [OF narrow_bin_layer_fields(1), of 0]
    by (simp add: narrow_bin_layer_fields sr)
  have "0.1 < m_dist ?m" by (simp add: SpectrogramRangeMapper_def)
  then have "0.1 / m_s2 < getValueForPosition ?m (getPositionForValue ?m 0)"
    by (rule max_step_range)
  moreover have "0.1 / (6 / 5) < 0.1 / m_s2"
    using m_s2_upper m_s2_pos by (intro divide_strict_left_mono) simp_all
  ultimately have "8000 / 131072 < getValueForPosition ?m (getPositionForValue ?m 0)"
    by simp
  then show ?thesis
    by (simp add: narrow_bin_layer_fields sr steps)
qed

section \<open>Properties: zooming to a step\<close>

lemma lrint_of_int: "lrint (real_of_int i) = i"
  by (simp add: lrint_def)

lemma setVerticalZoomStep_stores:
  assumes "m_model L = Some src"
  shows "m_minFrequency (setVerticalZoomStep step L)
           = lrint (fst (confineExtents (sampleRate src)
               (zoomExtents (m_binScale L) (real_of_int (m_minFrequency L))
                  (real_of_int (m_maxFrequency L))
                  (getValueForPosition
                     (SpectrogramRangeMapper (sampleRate src) (getFFTSize L)) step))))"
    and "m_maxFrequency (setVerticalZoomStep step L)
           = lrint (snd (confineExtents (sampleRate src)
               (zoomExtents (m_binScale L) (real_of_int (m_minFrequency L))
                  (real_of_int (m_maxFrequency L))
                  (getValueForPosition
                     (SpectrogramRangeMapper (sampleRate src) (getFFTSize L)) step))))"
  by (simp_all add: setVerticalZoomStep_def assms Let_def fields_setMaxFrequency
      fields_setMinFrequency)

lemma confineExtents_inside:
  assumes "0 \<le> fst e" and "snd e \<le> sr / 2"
  shows "confineExtents sr e = e"
  using assms by (simp add: confineExtents_def Let_def prod_eq_iff)

lemma zoomExtents_log:
  fixes dmin dmax newdist :: real
  assumes "0 \<le> dmin * dmax"
  defines "newmin \<equiv> fst (zoomExtents BinScale_Log dmin dmax newdist)"
      and "newmax \<equiv> snd (zoomExtents BinScale_Log dmin dmax newdist)"
  shows "newmax\<^sup>2 - newdist * newmax - dmin * dmax = 0"
    and "newdist / 2 \<le> newmax" and "0 \<le> newmax"
    and "newmin = newmax - newdist"
    and "newmin * newmax = dmin * dmax"
proof -
  define r where "r = sqrt (newdist * newdist + 4 * dmin * dmax)"
  have disc: "0 \<le> newdist * newdist + 4 * dmin * dmax"
    using assms(1) by (simp add: mult.assoc)
  then have r2: "r * r = newdist * newdist + 4 * dmin * dmax"
    by (simp add: r_def)
  have r0: "0 \<le> r" using disc by (simp add: r_def)
  have "newdist * newdist \<le> r * r" using assms(1) by (simp add: r2 mult.assoc)
  then have "\<bar>newdist\<bar> \<le> r"
    using r0 by (metis abs_le_square_iff abs_of_nonneg power2_eq_square)
  then have rn: "- newdist \<le> r" by simp
  have mx: "newmax = (newdist + r) / 2"
    by (simp add: newmax_def zoomExtents_def Let_def r_def)
  have mn: "newmin = (newdist + r) / 2 - newdist"
    by (simp add: newmin_def zoomExtents_def Let_def r_def)
  show "newmin = newmax - newdist" by (simp add: mx mn)
  show "newdist / 2 \<le> newmax" using r0 by (simp add: mx)
  show "0 \<le> newmax" using rn by (simp add: mx)
  have "4 * (newmax\<^sup>2 - newdist * newmax - dmin * dmax)
          = r * r - newdist * newdist - 4 * dmin * dmax"
    by (simp add: mx power2_eq_square field_simps)
  then show q: "newmax\<^sup>2 - newdist * newmax - dmin * dmax = 0" by (simp add: r2)
  have "newmin * newmax = newmax\<^sup>2 - newdist * newmax"
    by (simp add: mx mn power2_eq_square field_simps)
  with q show "newmin * newmax = dmin * dmax" by simp
qed

lemma zoomExtents_linear:
  assumes "binScale \<noteq> BinScale_Log"
  shows "(fst (zoomExtents binScale dmin dmax newdist)
            + snd (zoomExtents binScale dmin dmax newdist)) / 2 = (dmin + dmax) / 2"
    and "snd (zoomExtents binScale dmin dmax newdist)
            - fst (zoomExtents binScale dmin dmax newdist) = newdist"
  using assms by (simp_all add: zoomExtents_def Let_def)


lemma unbuilt_layer_fields:
  "m_model (unbuilt_layer sm) = Some (example_model 16000)"
  "m_minFrequency (unbuilt_layer sm) = 10"
  "m_maxFrequency (unbuilt_layer sm) = 8000"
  "m_binScale (unbuilt_layer sm) = BinScale_Linear"
  by (simp_all add: eval_defs)

text \<open>
  Claim C4, as stated, fails where the new extents leave \<open>[0, sr/2]\<close>. On the layer as
  its member initialisers leave it (linear scale, 10 Hz to 8000 Hz, midpoint 4005 Hz)
  with a 16 kHz source,
  step 0 asks for a range 8000 Hz wide, that is 5 Hz to 8005 Hz; the maximum is cut at
  8000 Hz, and the range stored, 5 Hz to 8000 Hz, has another midpoint.
\<close>

theorem zoom_step_moves_midpoint:
  "m_binScale (unbuilt_layer NoSpectrogramSmoothing) = BinScale_Linear
   \<and> m_minFrequency (unbuilt_layer NoSpectrogramSmoothing) = 10
   \<and> m_maxFrequency (unbuilt_layer NoSpectrogramSmoothing) = 8000
   \<and> m_minFrequency (setVerticalZoomStep 0 (unbuilt_layer NoSpectrogramSmoothing)) = 5
   \<and> m_maxFrequency (setVerticalZoomStep 0 (unbuilt_layer NoSpectrogramSmoothing)) = 8000
   \<and> (5 + 8000) / 2 \<noteq> (10 + 8000) / (2::real)"
proof -
  let ?L = "unbuilt_layer NoSpectrogramSmoothing"
  have sr: "sampleRate (example_model 16000) = 16000" by (simp add: example_model_def)
  have e: "confineExtents 16000 (zoomExtents BinScale_Linear 10 8000 8000) = (5, 8000)"
    by (simp add: confineExtents_def zoomExtents_def Let_def)
  have l: "lrint 5 = 5" "lrint 8000 = 8000"
    using lrint_of_int [of 5] lrint_of_int [of 8000] by simp_all
  from setVerticalZoomStep_stores
         [OF unbuilt_layer_fields(1) [of NoSpectrogramSmoothing], of 0]
  show ?thesis
    by (simp add: unbuilt_layer_fields sr zoom_step_zero e l)
qed

text \<open>
  Claim C4, amended. With \<open>dmin\<close> and \<open>dmax\<close> the current minimum and maximum
  frequency and \<open>newdist\<close> the range width of the step, the extents \<open>newmin\<close> and
  \<open>newmax\<close> that \<^verbatim>\<open>setVerticalZoomStep\<close> computes first satisfy: under the
  logarithmic scale (for \<open>dmin * dmax\<close> not negative) \<open>newmax\<close> is the larger root of
  \<open>newmax\<^sup>2 - newdist * newmax - dmin * dmax = 0\<close>, it is not negative,
  \<open>newmin = newmax - newdist\<close>, and the geometric midpoint is kept; under the other
  scale the arithmetic midpoint is kept and the width is \<open>newdist\<close>. The frequencies
  stored are these extents rounded to integers when they lie within \<open>[0, sr/2]\<close>.
\<close>

theorem setVerticalZoomStep_extents:
  fixes L :: layer and src :: dtv_model and step :: int
  defines "dmin \<equiv> real_of_int (m_minFrequency L)"
      and "dmax \<equiv> real_of_int (m_maxFrequency L)"
      and "newdist \<equiv>
             getValueForPosition (SpectrogramRangeMapper (sampleRate src) (getFFTSize L)) step"
  defines "newmin \<equiv> fst (zoomExtents (m_binScale L) dmin dmax newdist)"
      and "newmax \<equiv> snd (zoomExtents (m_binScale L) dmin dmax newdist)"
  assumes "m_model L = Some src"
  shows "(m_binScale L = BinScale_Log \<and> 0 \<le> dmin * dmax \<longrightarrow>
            newmax\<^sup>2 - newdist * newmax - dmin * dmax = 0
            \<and> newdist / 2 \<le> newmax \<and> 0 \<le> newmax
            \<and> newmin = newmax - newdist
            \<and> sqrt (newmin * newmax) = sqrt (dmin * dmax))
       \<and> (m_binScale L \<noteq> BinScale_Log \<longrightarrow>
            (newmin + newmax) / 2 = (dmin + dmax) / 2 \<and> newmax - newmin = newdist)
       \<and> (0 \<le> newmin \<and> newmax \<le> sampleRate src / 2 \<longrightarrow>
            m_minFrequency (setVerticalZoomStep step L) = lrint newmin
            \<and> m_maxFrequency (setVerticalZoomStep step L) = lrint newmax)"
proof (intro conjI impI)
  assume a: "m_binScale L = BinScale_Log \<and> 0 \<le> dmin * dmax"
  then have nn: "0 \<le> dmin * dmax" and lg: "m_binScale L = BinScale_Log" by simp_all
  note z = zoomExtents_log [OF nn, of newdist, folded lg, folded newmin_def newmax_def]
  from z show "newmax\<^sup>2 - newdist * newmax - dmin * dmax = 0"
    and "newdist / 2 \<le> newmax" and "0 \<le> newmax" and "newmin = newmax - newdist"
    by simp_all
  from z(5) show "sqrt (newmin * newmax) = sqrt (dmin * dmax)" by simp
next
  assume li: "m_binScale L \<noteq> BinScale_Log"
  from zoomExtents_linear [OF li, of dmin dmax newdist]
  show "(newmin + newmax) / 2 = (dmin + dmax) / 2" and "newmax - newmin = newdist"
    by (simp_all add: newmin_def newmax_def)
next
  assume i: "0 \<le> newmin \<and> newmax \<le> sampleRate src / 2"
  then have c: "confineExtents (sampleRate src)
                  (zoomExtents (m_binScale L) dmin dmax newdist)
                = zoomExtents (m_binScale L) dmin dmax newdist"
    unfolding newmin_def newmax_def by (intro confineExtents_inside) simp_all
  from setVerticalZoomStep_stores [OF assms(6), of step]
  show "m_minFrequency (setVerticalZoomStep step L) = lrint newmin"
    and "m_maxFrequency (setVerticalZoomStep step L) = lrint newmax"
    unfolding dmin_def [symmetric] dmax_def [symmetric] newdist_def [symmetric] c
      newmin_def newmax_def by simp_all
qed


lemma log_example_fields:
  "m_model log_example = Some (example_model 16000)"
  "m_minFrequency log_example = 225"
  "m_maxFrequency log_example = 900"
  "m_binScale log_example = BinScale_Log"
  "getFFTSize log_example = 1024"
  by (simp_all add: log_example_def eval_defs setMinFrequency_def setMaxFrequency_def
      setBinScale_def invalidateMagnitudes_def)

theorem setVerticalZoomStep_extents_witness:
  "m_model log_example = Some (example_model 16000)
   \<and> m_binScale log_example = BinScale_Log
   \<and> m_minFrequency log_example = 225 \<and> m_maxFrequency log_example = 900
   \<and> getValueForPosition (SpectrogramRangeMapper 16000 1024) 4 = 4000
   \<and> zoomExtents BinScale_Log 225 900 4000 = (50, 4050)
   \<and> m_minFrequency (setVerticalZoomStep 4 log_example) = 50
   \<and> m_maxFrequency (setVerticalZoomStep 4 log_example) = 4050
   \<and> sqrt (50 * 4050) = sqrt (225 * (900::real))"
proof -
  have sr: "sampleRate (example_model 16000) = 16000" by (simp add: example_model_def)
  have "nat 4 = 4" by simp
  then have nd: "getValueForPosition (SpectrogramRangeMapper 16000 1024) 4 = 4000"
    by (simp add: getValueForPosition_eq SpectrogramRangeMapper_def m_s2_pow4)
  have "sqrt (4100\<^sup>2) = (4100::real)" by simp
  then have rt: "sqrt 16810000 = (4100::real)" by simp
  have ze: "zoomExtents BinScale_Log 225 900 4000 = (50, 4050)"
    by (simp add: zoomExtents_def Let_def rt)
  have l: "lrint 50 = 50" "lrint 4050 = 4050"
    using lrint_of_int [of 50] lrint_of_int [of 4050] by simp_all
  from setVerticalZoomStep_extents [OF log_example_fields(1), of 4]
  show ?thesis
    by (simp add: log_example_fields sr nd ze l)
qed

section \<open>Properties: the adjusted frequency range\<close>









text \<open>
  A pixel has a block of bins exactly when the four tests at the head of the function
  pass: the source model is there, OK and ready, \<^verbatim>\<open>getFFTModel\<close> returns a model, and
  \<^verbatim>\<open>getXBinRange\<close> and \<^verbatim>\<open>getYBinRange\<close> return true.
\<close>

lemma binBlock_Some:
  assumes "m_model L = Some src" and "isOK src" and "isReady src"
      and "getFFTModel mk L = (L1, Some fft)"
      and "getXBinRange src v x L1 = Some s"
      and "getYBinRange src v y L1 = Some q"
  shows "binBlock mk v x y L
           = (L1, Some \<lparr> bb_fft = fft, bb_sr = sampleRate src,
                          bb_s0i = trunc_int (fst s + 0.001), bb_s1i = trunc_int (snd s),
                          bb_q0i = trunc_int (fst q + 0.001),
                          bb_q1i = trunc_int (snd q) \<rparr>)"
  unfolding binBlock_def Let_def
  by (simp only: assms option.case simp_thms if_False fst_conv snd_conv)

lemma binBlock_None:
  "m_model L = None \<Longrightarrow> binBlock mk v x y L = (L, None)"
  "m_model L = Some src \<Longrightarrow> \<not> isOK src \<or> \<not> isReady src \<Longrightarrow> binBlock mk v x y L = (L, None)"
  "m_model L = Some src \<Longrightarrow> isOK src \<Longrightarrow> isReady src \<Longrightarrow> getFFTModel mk L = (L1, None)
     \<Longrightarrow> binBlock mk v x y L = (L1, None)"
  "m_model L = Some src \<Longrightarrow> isOK src \<Longrightarrow> isReady src \<Longrightarrow> getFFTModel mk L = (L1, Some fft)
     \<Longrightarrow> getXBinRange src v x L1 = None \<Longrightarrow> binBlock mk v x y L = (L1, None)"
  "m_model L = Some src \<Longrightarrow> isOK src \<Longrightarrow> isReady src \<Longrightarrow> getFFTModel mk L = (L1, Some fft)
     \<Longrightarrow> getXBinRange src v x L1 = Some s \<Longrightarrow> getYBinRange src v y L1 = None
     \<Longrightarrow> binBlock mk v x y L = (L1, None)"
  unfolding binBlock_def Let_def by simp_all












section \<open>Properties: the frequency axis there and back\<close>








end
